theory Spec2Isabelle
  imports Main
begin

section \<open>Data model (src/lib/supabase/types.ts)\<close>

text \<open>
  Identifiers are uuids, held by the application as strings. The TypeScript unions
  \<open>UserRole\<close>, \<open>RequestStatus\<close> and \<open>RequestPriority\<close> are erased at run time: the
  values the application holds are the label strings themselves. The role is only ever
  compared with the four labels, so it is a datatype with the label text beside it;
  status and priority stay strings, and membership in the enum is a property to be
  proved of them, not a typing assumption.
\<close>

type_synonym uuid = string

datatype UserRole = Admin | Team_member | User | Guest

fun user_role_label :: "UserRole \<Rightarrow> string" where
  "user_role_label Admin = ''admin''"
| "user_role_label Team_member = ''team_member''"
| "user_role_label User = ''user''"
| "user_role_label Guest = ''guest''"

record Profile =
  p_id :: uuid
  p_email :: string
  p_full_name :: "string option"
  p_avatar_url :: "string option"
  p_role :: UserRole
  p_created_at :: string
  p_updated_at :: string

record Request =
  r_id :: uuid
  r_title :: string
  r_description :: "string option"
  r_status :: string
  r_priority :: string
  r_due_date :: "string option"
  r_created_by :: uuid
  r_assigned_to :: "uuid option"
  r_created_at :: string
  r_updated_at :: string

text \<open>
  The session user handed out by the authentication provider. Only \<open>user.id\<close> is read
  by the code under study; the e-mail stands for the rest of the object.
\<close>

record AuthUser =
  u_id :: uuid
  u_email :: "string option"

text \<open>
  What \<open>useAuth()\<close> yields to the hook: a profile or null, a user or null. The provider
  itself is not part of the sources, so both are inputs of the model and no relation
  between them is assumed.
\<close>

record AuthContext =
  profile :: "Profile option"
  user :: "AuthUser option"

section \<open>The permission hook (src/hooks/use-permissions.ts)\<close>

record Permissions =
  role :: "UserRole option"
  isAdmin :: bool
  isTeamMember :: bool
  isUser :: bool
  isGuest :: bool
  canCreateRequest :: bool
  canViewAllRequests :: bool
  canEditAnyRequest :: bool
  canDeleteAnyRequest :: bool
  canEditRequest :: "uuid \<Rightarrow> uuid option \<Rightarrow> bool"
  canDeleteRequest :: "uuid \<Rightarrow> bool"
  canCommentOnRequest :: "uuid \<Rightarrow> bool"
  canViewRequest :: "uuid \<Rightarrow> bool"
  canManageUsers :: bool

text \<open>
  \<open>profile?.role || null\<close>: the role of the profile when there is one. The optional
  second argument of \<open>canEditRequest\<close> (undefined, null or a string) is an option: neither
  undefined nor null is ever \<open>===\<close> to the string \<open>user.id\<close>.
\<close>

definition usePermissions :: "AuthContext \<Rightarrow> Permissions" where
  "usePermissions ctx =
    (let role' = map_option p_role (profile ctx);
         isAdmin' = (role' = Some Admin);
         isTeamMember' = (role' = Some Team_member);
         isUser' = (role' = Some User);
         isGuest' = (role' = Some Guest)
     in \<lparr> role = role',
          isAdmin = isAdmin',
          isTeamMember = isTeamMember',
          isUser = isUser',
          isGuest = isGuest',
          canCreateRequest = (isAdmin' \<or> isTeamMember' \<or> isUser'),
          canViewAllRequests = (isAdmin' \<or> isTeamMember'),
          canEditAnyRequest = isAdmin',
          canDeleteAnyRequest = isAdmin',
          canEditRequest = (\<lambda>createdBy assignedTo.
            case user ctx of None \<Rightarrow> False
            | Some u \<Rightarrow>
                if isAdmin' then True
                else if isTeamMember' \<and> assignedTo = Some (u_id u) then True
                else createdBy = u_id u),
          canDeleteRequest = (\<lambda>createdBy.
            case user ctx of None \<Rightarrow> False
            | Some u \<Rightarrow>
                if isAdmin' then True
                else createdBy = u_id u),
          canCommentOnRequest = (\<lambda>createdBy.
            case user ctx of None \<Rightarrow> False
            | Some u \<Rightarrow>
                if isGuest' then False
                else if isAdmin' \<or> isTeamMember' then True
                else createdBy = u_id u),
          canViewRequest = (\<lambda>createdBy.
            case user ctx of None \<Rightarrow> False
            | Some u \<Rightarrow>
                if isAdmin' \<or> isTeamMember' then True
                else createdBy = u_id u),
          canManageUsers = isAdmin' \<rparr>)"

section \<open>The database: tables, sessions and errors (migrations)\<close>

text \<open>
  A table is the list of its rows. A row of the comment, activity and attachment tables
  carries the columns an \<open>INSERT\<close> supplies; \<open>id\<close> and \<open>created_at\<close> are filled by column
  defaults (\<open>gen_random_uuid()\<close>, \<open>now()\<close>) and no policy or trigger reads them. A
  \<open>timestamptz\<close> value is represented by its text in the session's time zone, which
  determines it, so that \<open>IS DISTINCT FROM\<close> is inequality of the texts and \<open>::text\<close> is
  the identity.
\<close>

record RequestComment =
  c_request_id :: uuid
  c_user_id :: uuid
  c_comment_text :: string

record RequestActivity =
  a_request_id :: uuid
  a_user_id :: uuid
  a_activity_type :: string
  a_old_value :: "string option"
  a_new_value :: "string option"

record RequestAttachment =
  f_request_id :: uuid
  f_file_url :: string
  f_filename :: string
  f_file_size :: "int option"
  f_mime_type :: "string option"
  f_uploaded_by :: uuid

datatype TableName =
  profiles_table | requests_table | request_attachments_table | request_comments_table
  | request_activity_table

fun table_name :: "TableName \<Rightarrow> string" where
  "table_name profiles_table = ''profiles''"
| "table_name requests_table = ''requests''"
| "table_name request_attachments_table = ''request_attachments''"
| "table_name request_comments_table = ''request_comments''"
| "table_name request_activity_table = ''request_activity''"

definition all_tables :: "TableName list" where
  "all_tables =
     [profiles_table, requests_table, request_attachments_table, request_comments_table,
      request_activity_table]"

text \<open>
  A statement reaches the database under one of the two API roles; \<open>auth.uid()\<close> is the
  subject of the caller's token, null when there is none.
\<close>

datatype DbRole = Anon | Authenticated

record Session =
  db_role :: DbRole
  auth_uid :: "uuid option"

datatype SqlCommand = SELECT | INSERT | UPDATE | DELETE

text \<open>
  The errors, by their condition names. \<open>invalid_object_definition\<close> (42P17) is what the
  engine raises as \<open>infinite recursion detected in policy for relation\<close>, with the name of
  the relation.
\<close>

datatype PgError =
    invalid_text_representation string
  | not_null_violation string
  | unique_violation string
  | foreign_key_violation string
  | insufficient_privilege string
  | invalid_object_definition string

section \<open>Row-level security: the policies as the migrations create them\<close>

text \<open>
  The expressions the policies are written in. Column names are those of the innermost
  \<open>FROM\<close>; \<open>Eq_outer c oc\<close> compares column \<open>c\<close> with column \<open>oc\<close> of the row of the
  enclosing query, as in \<open>id = request_comments.request_id\<close>.
  \<^item> \<open>Eq_uid c\<close> is \<open>c = auth.uid()\<close> (also written \<open>c = (select auth.uid())\<close>);
  \<^item> \<open>In_list c vs\<close> is \<open>c IN (vs)\<close>, and \<open>c = 'v'\<close> for a single value;
  \<^item> \<open>Exists t e\<close> is \<open>EXISTS (SELECT 1 FROM t WHERE e)\<close>;
  \<^item> \<open>Eq_scalar c t c' e\<close> is \<open>c = (SELECT c' FROM t WHERE e)\<close>.
\<close>

datatype Expr =
    Eq_uid string
  | In_list string "string list"
  | Eq_outer string string
  | Eq_scalar string TableName string Expr
  | Exists TableName Expr
  | SqlAnd Expr Expr
  | SqlOr Expr Expr
  | SqlTrue

text \<open>
  A policy: its name, table, command and role, and its \<open>USING\<close> and \<open>WITH CHECK\<close>
  expressions. All policies of the migrations are permissive.
\<close>

record Policy =
  pol_name :: string
  pol_table :: TableName
  pol_command :: SqlCommand
  pol_role :: DbRole
  pol_using :: "Expr option"
  pol_with_check :: "Expr option"

definition policy ::
  "string \<Rightarrow> TableName \<Rightarrow> SqlCommand \<Rightarrow> DbRole \<Rightarrow> Expr option \<Rightarrow> Expr option \<Rightarrow> Policy" where
  "policy n t c r u w =
     \<lparr>pol_name = n, pol_table = t, pol_command = c, pol_role = r, pol_using = u,
      pol_with_check = w\<rparr>"

text \<open>\<open>EXISTS (SELECT 1 FROM profiles WHERE id = auth.uid() AND role IN (...))\<close>\<close>

definition caller_has_role :: "string list \<Rightarrow> Expr" where
  "caller_has_role roles =
     Exists profiles_table (SqlAnd (Eq_uid ''id'') (In_list ''role'' roles))"

text \<open>
  \<open>EXISTS (SELECT 1 FROM requests WHERE id = child.request_id AND (...))\<close>, the shape of
  the policies on the three child tables.
\<close>

definition on_request :: "Expr \<Rightarrow> Expr" where
  "on_request e = Exists requests_table (SqlAnd (Eq_outer ''id'' ''request_id'') e)"

text \<open>The policies of the first migration, on \<open>profiles\<close>.\<close>

definition profiles_policies :: "Policy list" where
  "profiles_policies =
     [policy ''Users can read own profile'' profiles_table SELECT Authenticated
        (Some (Eq_uid ''id'')) None,
      policy ''Admins can read all profiles'' profiles_table SELECT Authenticated
        (Some (caller_has_role [''admin''])) None,
      policy ''Users can update own profile'' profiles_table UPDATE Authenticated
        (Some (Eq_uid ''id''))
        (Some (SqlAnd (Eq_uid ''id'')
                 (Eq_scalar ''role'' profiles_table ''role'' (Eq_uid ''id'')))),
      policy ''Admins can update any profile'' profiles_table UPDATE Authenticated
        (Some (caller_has_role [''admin''])) (Some (caller_has_role [''admin''])),
      policy ''Users can insert own profile'' profiles_table INSERT Authenticated
        None (Some (Eq_uid ''id''))]"

text \<open>The policies of the second migration, on the request tables.\<close>

definition requests_policies :: "Policy list" where
  "requests_policies =
     [policy ''Users can read own requests'' requests_table SELECT Authenticated
        (Some (Eq_uid ''created_by'')) None,
      policy ''Admins and team members can read all requests'' requests_table SELECT
        Authenticated (Some (caller_has_role [''admin'', ''team_member''])) None,
      policy ''Authenticated users can create requests'' requests_table INSERT Authenticated
        None
        (Some (SqlAnd (Eq_uid ''created_by'')
                 (caller_has_role [''admin'', ''team_member'', ''user'']))),
      policy ''Users can update own requests'' requests_table UPDATE Authenticated
        (Some (Eq_uid ''created_by'')) (Some (Eq_uid ''created_by'')),
      policy ''Admins can update any request'' requests_table UPDATE Authenticated
        (Some (caller_has_role [''admin''])) (Some (caller_has_role [''admin''])),
      policy ''Team members can update assigned requests'' requests_table UPDATE
        Authenticated
        (Some (SqlAnd (Eq_uid ''assigned_to'') (caller_has_role [''team_member''])))
        (Some (SqlAnd (Eq_uid ''assigned_to'') (caller_has_role [''team_member'']))),
      policy ''Users can delete own requests'' requests_table DELETE Authenticated
        (Some (Eq_uid ''created_by'')) None,
      policy ''Admins can delete any request'' requests_table DELETE Authenticated
        (Some (caller_has_role [''admin''])) None]"

definition request_attachments_policies :: "Policy list" where
  "request_attachments_policies =
     [policy ''Users can read attachments for viewable requests'' request_attachments_table
        SELECT Authenticated
        (Some (on_request
                 (SqlOr (Eq_uid ''created_by'') (caller_has_role [''admin'', ''team_member'']))))
        None,
      policy ''Users can insert attachments for editable requests'' request_attachments_table
        INSERT Authenticated None
        (Some (SqlAnd (Eq_uid ''uploaded_by'')
                 (on_request
                    (SqlOr (Eq_uid ''created_by'')
                       (SqlOr (Eq_uid ''assigned_to'') (caller_has_role [''admin''])))))),
      policy ''Users can delete own attachments'' request_attachments_table DELETE
        Authenticated (Some (Eq_uid ''uploaded_by'')) None,
      policy ''Admins can delete any attachment'' request_attachments_table DELETE
        Authenticated (Some (caller_has_role [''admin''])) None]"

definition request_comments_policies :: "Policy list" where
  "request_comments_policies =
     [policy ''Users can read comments for viewable requests'' request_comments_table SELECT
        Authenticated
        (Some (on_request
                 (SqlOr (Eq_uid ''created_by'') (caller_has_role [''admin'', ''team_member'']))))
        None,
      policy ''Users can insert comments on viewable requests'' request_comments_table INSERT
        Authenticated None
        (Some (SqlAnd (Eq_uid ''user_id'')
                 (on_request
                    (SqlOr (Eq_uid ''created_by'')
                       (caller_has_role [''admin'', ''team_member'']))))),
      policy ''Users can update own comments'' request_comments_table UPDATE Authenticated
        (Some (Eq_uid ''user_id'')) (Some (Eq_uid ''user_id'')),
      policy ''Users can delete own comments'' request_comments_table DELETE Authenticated
        (Some (Eq_uid ''user_id'')) None,
      policy ''Admins can delete any comment'' request_comments_table DELETE Authenticated
        (Some (caller_has_role [''admin''])) None]"

definition request_activity_policies :: "Policy list" where
  "request_activity_policies =
     [policy ''Users can read activity for viewable requests'' request_activity_table SELECT
        Authenticated
        (Some (on_request
                 (SqlOr (Eq_uid ''created_by'') (caller_has_role [''admin'', ''team_member'']))))
        None,
      policy ''System can insert activity'' request_activity_table INSERT Authenticated
        None (Some (Eq_uid ''user_id''))]"

text \<open>The catalogue after the first two migrations.\<close>

definition initial_policies :: "Policy list" where
  "initial_policies =
     profiles_policies @ requests_policies @ request_attachments_policies
     @ request_comments_policies @ request_activity_policies"

text \<open>
  The profile-creation fix drops and recreates three policies on \<open>profiles\<close> with the same
  expressions and adds two for the role \<open>anon\<close>.
\<close>

definition signup_fix_policies :: "Policy list" where
  "signup_fix_policies =
     initial_policies @
     [policy ''Allow profile read during signup'' profiles_table SELECT Anon
        (Some SqlTrue) None,
      policy ''Allow profile creation during signup'' profiles_table INSERT Anon
        None (Some SqlTrue)]"

text \<open>
  The security migration drops every policy above and creates these, one per table and
  command.
\<close>

definition consolidated_policies :: "Policy list" where
  "consolidated_policies =
     [policy ''Users can read accessible profiles'' profiles_table SELECT Authenticated
        (Some (SqlOr (Eq_uid ''id'') (caller_has_role [''admin'']))) None,
      policy ''Users can insert own profile'' profiles_table INSERT Authenticated
        None (Some (Eq_uid ''id'')),
      policy ''Users can update accessible profiles'' profiles_table UPDATE Authenticated
        (Some (SqlOr (Eq_uid ''id'') (caller_has_role [''admin''])))
        (Some (SqlOr
                 (SqlAnd (Eq_uid ''id'')
                    (Eq_scalar ''role'' profiles_table ''role'' (Eq_uid ''id'')))
                 (caller_has_role [''admin'']))),
      policy ''Users can read accessible requests'' requests_table SELECT Authenticated
        (Some (SqlOr (Eq_uid ''created_by'') (caller_has_role [''admin'', ''team_member''])))
        None,
      policy ''Authenticated users can create requests'' requests_table INSERT Authenticated
        None
        (Some (SqlAnd (Eq_uid ''created_by'')
                 (caller_has_role [''admin'', ''team_member'', ''user'']))),
      policy ''Users can update accessible requests'' requests_table UPDATE Authenticated
        (Some (SqlOr (Eq_uid ''created_by'')
                 (SqlOr (SqlAnd (Eq_uid ''assigned_to'') (caller_has_role [''team_member'']))
                    (caller_has_role [''admin'']))))
        (Some (SqlOr (Eq_uid ''created_by'')
                 (SqlOr (SqlAnd (Eq_uid ''assigned_to'') (caller_has_role [''team_member'']))
                    (caller_has_role [''admin''])))),
      policy ''Users can delete accessible requests'' requests_table DELETE Authenticated
        (Some (SqlOr (Eq_uid ''created_by'') (caller_has_role [''admin'']))) None,
      policy ''Users can read attachments for viewable requests'' request_attachments_table
        SELECT Authenticated
        (Some (on_request
                 (SqlOr (Eq_uid ''created_by'') (caller_has_role [''admin'', ''team_member'']))))
        None,
      policy ''Users can insert attachments for editable requests'' request_attachments_table
        INSERT Authenticated None
        (Some (SqlAnd (Eq_uid ''uploaded_by'')
                 (on_request
                    (SqlOr (Eq_uid ''created_by'')
                       (SqlOr (Eq_uid ''assigned_to'') (caller_has_role [''admin''])))))),
      policy ''Users can delete accessible attachments'' request_attachments_table DELETE
        Authenticated
        (Some (SqlOr (Eq_uid ''uploaded_by'') (caller_has_role [''admin'']))) None,
      policy ''Users can read comments for viewable requests'' request_comments_table SELECT
        Authenticated
        (Some (on_request
                 (SqlOr (Eq_uid ''created_by'') (caller_has_role [''admin'', ''team_member'']))))
        None,
      policy ''Users can insert comments on viewable requests'' request_comments_table INSERT
        Authenticated None
        (Some (SqlAnd (Eq_uid ''user_id'')
                 (on_request
                    (SqlOr (Eq_uid ''created_by'')
                       (caller_has_role [''admin'', ''team_member'']))))),
      policy ''Users can update own comments'' request_comments_table UPDATE Authenticated
        (Some (Eq_uid ''user_id'')) (Some (Eq_uid ''user_id'')),
      policy ''Users can delete accessible comments'' request_comments_table DELETE
        Authenticated
        (Some (SqlOr (Eq_uid ''user_id'') (caller_has_role [''admin'']))) None,
      policy ''Users can read activity for viewable requests'' request_activity_table SELECT
        Authenticated
        (Some (on_request
                 (SqlOr (Eq_uid ''created_by'') (caller_has_role [''admin'', ''team_member'']))))
        None,
      policy ''System can insert activity'' request_activity_table INSERT Authenticated
        None (Some (Eq_uid ''user_id''))]"

text \<open>The catalogues the migrations leave, in the order they are reached.\<close>

definition shipped_catalogues :: "Policy list list" where
  "shipped_catalogues = [initial_policies, signup_fix_policies, consolidated_policies]"

text \<open>
  The database: the five tables, all with row-level security enabled, and the policies
  in force.
\<close>

record Database =
  profiles :: "Profile list"
  requests :: "Request list"
  request_attachments :: "RequestAttachment list"
  request_comments :: "RequestComment list"
  request_activity :: "RequestActivity list"
  policies :: "Policy list"

section \<open>Row-level security: how the engine applies the policies\<close>

text \<open>
  The expressions attached to a statement on a table for a role: the \<open>USING\<close> expressions
  of the policies of the command, the \<open>WITH CHECK\<close> expressions for a row written (an
  \<open>UPDATE\<close> policy without one checks with its \<open>USING\<close> expression), and for \<open>UPDATE\<close> and
  \<open>DELETE\<close> the \<open>USING\<close> expressions of the \<open>SELECT\<close> policies as well, the statements of
  the application all having a \<open>WHERE\<close> clause that reads the row. An \<open>INSERT\<close> is taken
  without \<open>RETURNING\<close>.
\<close>

definition policies_for :: "Policy list \<Rightarrow> DbRole \<Rightarrow> TableName \<Rightarrow> SqlCommand \<Rightarrow> Policy list" where
  "policies_for cat r t c =
     filter (\<lambda>p. pol_table p = t \<and> pol_command p = c \<and> pol_role p = r) cat"

definition using_exprs :: "Policy list \<Rightarrow> DbRole \<Rightarrow> TableName \<Rightarrow> SqlCommand \<Rightarrow> Expr list" where
  "using_exprs cat r t c = List.map_filter pol_using (policies_for cat r t c)"

definition check_exprs :: "Policy list \<Rightarrow> DbRole \<Rightarrow> TableName \<Rightarrow> SqlCommand \<Rightarrow> Expr list" where
  "check_exprs cat r t c =
     List.map_filter (\<lambda>p. case pol_with_check p of None \<Rightarrow> pol_using p | Some w \<Rightarrow> Some w)
       (policies_for cat r t c)"

definition statement_exprs ::
  "Policy list \<Rightarrow> DbRole \<Rightarrow> TableName \<Rightarrow> SqlCommand \<Rightarrow> Expr list" where
  "statement_exprs cat r t c =
     (case c of
        SELECT \<Rightarrow> using_exprs cat r t SELECT
      | INSERT \<Rightarrow> check_exprs cat r t INSERT
      | UPDATE \<Rightarrow> using_exprs cat r t SELECT @ using_exprs cat r t UPDATE
                   @ check_exprs cat r t UPDATE
      | DELETE \<Rightarrow> using_exprs cat r t SELECT @ using_exprs cat r t DELETE)"

text \<open>The tables an expression selects from in its sub-selects, at any depth.\<close>

primrec subselect_tables :: "Expr \<Rightarrow> TableName list" where
  "subselect_tables (Eq_uid c) = []"
| "subselect_tables (In_list c vs) = []"
| "subselect_tables (Eq_outer c oc) = []"
| "subselect_tables (Eq_scalar c t c' e) = t # subselect_tables e"
| "subselect_tables (Exists t e) = t # subselect_tables e"
| "subselect_tables (SqlAnd a b) = subselect_tables a @ subselect_tables b"
| "subselect_tables (SqlOr a b) = subselect_tables a @ subselect_tables b"
| "subselect_tables SqlTrue = []"

definition subselects_of :: "Policy list \<Rightarrow> DbRole \<Rightarrow> TableName \<Rightarrow> SqlCommand \<Rightarrow> TableName list" where
  "subselects_of cat r t c = concat (map subselect_tables (statement_exprs cat r t c))"

fun first_error :: "(PgError + unit) list \<Rightarrow> PgError + unit" where
  "first_error [] = Inr ()"
| "first_error (Inl e # xs) = Inl e"
| "first_error (Inr u # xs) = first_error xs"

text \<open>
  The rewriter. Before a statement runs, the expressions attached to its table are added
  to it; when they contain sub-selects, every table selected from gets the expressions
  of its own \<open>SELECT\<close> policies for the role in turn, and so on. A table reached again
  while its own expressions are being expanded raises \<open>infinite recursion detected in
  policy for relation\<close>. This happens before any row is read, so it does not depend on the
  data. The third argument is the tables not yet under expansion.
\<close>

function rewrite_rel ::
  "Policy list \<Rightarrow> DbRole \<Rightarrow> TableName list \<Rightarrow> TableName \<Rightarrow> SqlCommand \<Rightarrow> PgError + unit" where
  "rewrite_rel cat r remaining t c =
     (if subselects_of cat r t c = [] then Inr ()
      else if t \<notin> set remaining then Inl (invalid_object_definition (table_name t))
      else first_error
             (map (\<lambda>t'. rewrite_rel cat r (removeAll t remaining) t' SELECT)
                (subselects_of cat r t c)))"
  by pat_completeness auto
termination
  by (relation "measure (\<lambda>(cat, r, remaining, t, c). length remaining)")
    (auto simp: length_removeAll_less)

declare rewrite_rel.simps [simp del]

text \<open>
  A row of any of the five tables, and the value of a column in it, null for a null
  column. These are the columns the policies read.
\<close>

datatype Row =
    ProfileRow Profile
  | RequestRow Request
  | AttachmentRow RequestAttachment
  | CommentRow RequestComment
  | ActivityRow RequestActivity

fun col :: "Row \<Rightarrow> string \<Rightarrow> string option" where
  "col (ProfileRow p) c =
     (if c = ''id'' then Some (p_id p)
      else if c = ''email'' then Some (p_email p)
      else if c = ''role'' then Some (user_role_label (p_role p))
      else None)"
| "col (RequestRow r) c =
     (if c = ''id'' then Some (r_id r)
      else if c = ''created_by'' then Some (r_created_by r)
      else if c = ''assigned_to'' then r_assigned_to r
      else if c = ''status'' then Some (r_status r)
      else if c = ''priority'' then Some (r_priority r)
      else None)"
| "col (AttachmentRow f) c =
     (if c = ''request_id'' then Some (f_request_id f)
      else if c = ''uploaded_by'' then Some (f_uploaded_by f)
      else None)"
| "col (CommentRow m) c =
     (if c = ''request_id'' then Some (c_request_id m)
      else if c = ''user_id'' then Some (c_user_id m)
      else None)"
| "col (ActivityRow a) c =
     (if c = ''request_id'' then Some (a_request_id a)
      else if c = ''user_id'' then Some (a_user_id a)
      else if c = ''activity_type'' then Some (a_activity_type a)
      else None)"

fun rows_of :: "Database \<Rightarrow> TableName \<Rightarrow> Row list" where
  "rows_of db profiles_table = map ProfileRow (profiles db)"
| "rows_of db requests_table = map RequestRow (requests db)"
| "rows_of db request_attachments_table = map AttachmentRow (request_attachments db)"
| "rows_of db request_comments_table = map CommentRow (request_comments db)"
| "rows_of db request_activity_table = map ActivityRow (request_activity db)"

text \<open>
  Three-valued logic: a comparison with null is null, \<open>AND\<close> and \<open>OR\<close> are Kleene's. A
  policy or a \<open>WHERE\<close> clause passes a row only when its expression is true.
\<close>

definition sql_eq :: "string option \<Rightarrow> string option \<Rightarrow> bool option" where
  "sql_eq x y = (case (x, y) of (Some a, Some b) \<Rightarrow> Some (a = b) | _ \<Rightarrow> None)"

definition sql_and :: "bool option \<Rightarrow> bool option \<Rightarrow> bool option" where
  "sql_and x y =
     (if x = Some False \<or> y = Some False then Some False
      else if x = Some True \<and> y = Some True then Some True
      else None)"

definition sql_or :: "bool option \<Rightarrow> bool option \<Rightarrow> bool option" where
  "sql_or x y =
     (if x = Some True \<or> y = Some True then Some True
      else if x = Some False \<and> y = Some False then Some False
      else None)"

text \<open>
  The value of an expression on a row, for a statement the rewriter has accepted. A
  sub-select sees the rows of its table that the caller's \<open>SELECT\<close> policies on that table
  pass (\<open>row_visible\<close>) and that satisfy its \<open>WHERE\<close> clause; the scalar sub-selects of the
  policies select by primary key, so the first such row is the only one. The list of
  tables plays the part it plays in the rewriter.
\<close>

function eval_expr ::
    "Database \<Rightarrow> Session \<Rightarrow> TableName list \<Rightarrow> Row option \<Rightarrow> Row \<Rightarrow> Expr \<Rightarrow> bool option"
  and row_visible :: "Database \<Rightarrow> Session \<Rightarrow> TableName list \<Rightarrow> TableName \<Rightarrow> Row \<Rightarrow> bool" where
  "eval_expr db s remaining outer row (Eq_uid c) = sql_eq (col row c) (auth_uid s)"
| "eval_expr db s remaining outer row (In_list c vs) =
     map_option (\<lambda>v. v \<in> set vs) (col row c)"
| "eval_expr db s remaining outer row (Eq_outer c oc) =
     (case outer of None \<Rightarrow> None | Some orow \<Rightarrow> sql_eq (col row c) (col orow oc))"
| "eval_expr db s remaining outer row (Eq_scalar c t c' e) =
     (case filter (\<lambda>row'. row_visible db s remaining t row'
                           \<and> eval_expr db s remaining (Some row) row' e = Some True)
             (rows_of db t) of
        [] \<Rightarrow> None
      | row' # rest \<Rightarrow> sql_eq (col row c) (col row' c'))"
| "eval_expr db s remaining outer row (Exists t e) =
     Some (list_ex (\<lambda>row'. row_visible db s remaining t row'
                            \<and> eval_expr db s remaining (Some row) row' e = Some True)
             (rows_of db t))"
| "eval_expr db s remaining outer row (SqlAnd a b) =
     sql_and (eval_expr db s remaining outer row a) (eval_expr db s remaining outer row b)"
| "eval_expr db s remaining outer row (SqlOr a b) =
     sql_or (eval_expr db s remaining outer row a) (eval_expr db s remaining outer row b)"
| "eval_expr db s remaining outer row SqlTrue = Some True"
| "row_visible db s remaining t row =
     (if t \<in> set remaining
      then list_ex (\<lambda>e. eval_expr db s (removeAll t remaining) None row e = Some True)
             (using_exprs (policies db) (db_role s) t SELECT)
      else False)"
  by pat_completeness auto
termination
  by (relation "inv_image (less_than <*lex*> less_than)
        (\<lambda>x. case x of
           Inl (db, s, remaining, outer, row, e) \<Rightarrow> (length remaining, Suc (size e))
         | Inr (db, s, remaining, t, row) \<Rightarrow> (length remaining, 0))")
    (auto simp: length_removeAll_less)

text \<open>
  The decision on a statement on one row: the error of the rewriter when it raises, else
  whether the row passes. For \<open>SELECT\<close>, \<open>UPDATE\<close> and \<open>DELETE\<close> the row is the stored one,
  which must pass some \<open>USING\<close> expression of each set of policies attached; for \<open>INSERT\<close> it
  is the new row, which must pass some \<open>WITH CHECK\<close> expression. With no policy for a
  command nothing passes.
\<close>

definition passes :: "Database \<Rightarrow> Session \<Rightarrow> TableName \<Rightarrow> Row \<Rightarrow> Expr list \<Rightarrow> bool" where
  "passes db s t row es =
     list_ex (\<lambda>e. eval_expr db s (removeAll t all_tables) None row e = Some True) es"

definition rls_decision ::
  "Database \<Rightarrow> Session \<Rightarrow> TableName \<Rightarrow> SqlCommand \<Rightarrow> Row \<Rightarrow> PgError + bool" where
  "rls_decision db s t c row =
     (case rewrite_rel (policies db) (db_role s) all_tables t c of
        Inl e \<Rightarrow> Inl e
      | Inr u \<Rightarrow>
          Inr (case c of
                 SELECT \<Rightarrow> passes db s t row (using_exprs (policies db) (db_role s) t SELECT)
               | INSERT \<Rightarrow> passes db s t row (check_exprs (policies db) (db_role s) t INSERT)
               | UPDATE \<Rightarrow> passes db s t row (using_exprs (policies db) (db_role s) t SELECT)
                             \<and> passes db s t row
                                 (using_exprs (policies db) (db_role s) t UPDATE)
               | DELETE \<Rightarrow> passes db s t row (using_exprs (policies db) (db_role s) t SELECT)
                             \<and> passes db s t row
                                 (using_exprs (policies db) (db_role s) t DELETE)))"

section \<open>Inserts into request\_activity, and the logging triggers\<close>

text \<open>
  \<open>INSERT INTO request_activity (request_id, user_id, activity_type, old_value, new_value)\<close>
  with the constraints of the table: \<open>user_id\<close> is \<open>NOT NULL\<close>, \<open>request_id\<close> references
  \<open>requests(id)\<close> and \<open>user_id\<close> references \<open>profiles(id)\<close>. The user id is an expression
  that may be null (\<open>auth.uid()\<close>), hence an option.
\<close>

definition insert_into_request_activity ::
  "uuid \<Rightarrow> uuid option \<Rightarrow> string \<Rightarrow> string option \<Rightarrow> string option \<Rightarrow> Database
    \<Rightarrow> PgError + Database" where
  "insert_into_request_activity rid uid ty old new db =
     (case uid of
        None \<Rightarrow> Inl (not_null_violation ''user_id'')
      | Some u \<Rightarrow>
          if \<not> list_ex (\<lambda>r. r_id r = rid) (requests db)
            then Inl (foreign_key_violation ''request_id'')
          else if \<not> list_ex (\<lambda>p. p_id p = u) (profiles db)
            then Inl (foreign_key_violation ''user_id'')
          else Inr (db\<lparr>request_activity := request_activity db @
                 [\<lparr>a_request_id = rid, a_user_id = u, a_activity_type = ty,
                   a_old_value = old, a_new_value = new\<rparr>]\<rparr>))"

text \<open>
  The trigger functions are \<open>SECURITY DEFINER\<close>: their inserts run as the owner of the
  tables and are not checked against the policies. A raised error leaves the function
  (and aborts the statement that fired the trigger).
\<close>

definition log_request_created :: "Request \<Rightarrow> Database \<Rightarrow> PgError + Database" where
  "log_request_created NEW db =
     insert_into_request_activity (r_id NEW) (Some (r_created_by NEW)) ''request_created''
       None (Some (r_title NEW)) db"

definition log_request_status_change ::
  "Session \<Rightarrow> Request \<Rightarrow> Request \<Rightarrow> Database \<Rightarrow> PgError + Database" where
  "log_request_status_change s OLD NEW db =
     (case (if r_status OLD \<noteq> r_status NEW
            then insert_into_request_activity (r_id NEW) (auth_uid s) ''status_changed''
                   (Some (r_status OLD)) (Some (r_status NEW)) db
            else Inr db) of
        Inl e \<Rightarrow> Inl e
      | Inr db1 \<Rightarrow>
     (case (if r_priority OLD \<noteq> r_priority NEW
            then insert_into_request_activity (r_id NEW) (auth_uid s) ''priority_changed''
                   (Some (r_priority OLD)) (Some (r_priority NEW)) db1
            else Inr db1) of
        Inl e \<Rightarrow> Inl e
      | Inr db2 \<Rightarrow>
     (case (if r_assigned_to OLD \<noteq> r_assigned_to NEW
            then insert_into_request_activity (r_id NEW) (auth_uid s) ''assignment_changed''
                   (r_assigned_to OLD) (r_assigned_to NEW) db2
            else Inr db2) of
        Inl e \<Rightarrow> Inl e
      | Inr db3 \<Rightarrow>
     (if r_due_date OLD \<noteq> r_due_date NEW
      then insert_into_request_activity (r_id NEW) (auth_uid s) ''due_date_changed''
             (r_due_date OLD) (r_due_date NEW) db3
      else Inr db3))))"

definition log_file_upload :: "RequestAttachment \<Rightarrow> Database \<Rightarrow> PgError + Database" where
  "log_file_upload NEW db =
     insert_into_request_activity (f_request_id NEW) (Some (f_uploaded_by NEW))
       ''file_uploaded'' None (Some (f_filename NEW)) db"

text \<open>The activity types the three trigger functions write.\<close>

definition trigger_activity_types :: "string list" where
  "trigger_activity_types =
     [''request_created'', ''status_changed'', ''priority_changed'', ''assignment_changed'',
      ''due_date_changed'', ''file_uploaded'']"

text \<open>
  An \<open>INSERT\<close> into \<open>request_activity\<close> sent by a client through the data API: the
  policies decide first, then the constraints of the table.
\<close>

definition api_insert_request_activity ::
  "Session \<Rightarrow> RequestActivity \<Rightarrow> Database \<Rightarrow> PgError + Database" where
  "api_insert_request_activity s a db =
     (case rls_decision db s request_activity_table INSERT (ActivityRow a) of
        Inl e \<Rightarrow> Inl e
      | Inr False \<Rightarrow> Inl (insufficient_privilege ''request_activity'')
      | Inr True \<Rightarrow>
          insert_into_request_activity (a_request_id a) (Some (a_user_id a))
            (a_activity_type a) (a_old_value a) (a_new_value a) db)"

text \<open>
  The statements the application code sends: every \<open>supabase.from(table)\<close> call of the
  sources, with the function it is in and the command it issues.
\<close>

definition application_statements :: "(string \<times> TableName \<times> SqlCommand) list" where
  "application_statements =
     [(''fetchRequestDetails'', requests_table, SELECT),
      (''fetchRequestDetails'', request_comments_table, SELECT),
      (''fetchRequestDetails'', request_activity_table, SELECT),
      (''fetchRequestDetails'', profiles_table, SELECT),
      (''handleStatusChange'', requests_table, UPDATE),
      (''handlePriorityChange'', requests_table, UPDATE),
      (''handleSubmitComment'', request_comments_table, INSERT),
      (''handleDeleteRequest'', requests_table, DELETE),
      (''handleSubmit'', requests_table, INSERT),
      (''handleSubmit'', requests_table, SELECT),
      (''useRequests.fetchRequests'', requests_table, SELECT),
      (''useRequests.refetch'', requests_table, SELECT)]"

section \<open>The session of a signed-in browser, and sample data\<close>

text \<open>
  The client library sends the signed-in user's token with every statement, so the
  database sees the role \<open>authenticated\<close> and \<open>auth.uid() = user.id\<close>; without a user it
  sends the public key alone and the database sees \<open>anon\<close>.
\<close>

definition session_of :: "AuthContext \<Rightarrow> Session" where
  "session_of ctx =
     (case user ctx of
        None \<Rightarrow> \<lparr>db_role = Anon, auth_uid = None\<rparr>
      | Some u \<Rightarrow> \<lparr>db_role = Authenticated, auth_uid = Some (u_id u)\<rparr>)"

definition mk_profile :: "uuid \<Rightarrow> string \<Rightarrow> UserRole \<Rightarrow> Profile" where
  "mk_profile i e rl =
     \<lparr>p_id = i, p_email = e, p_full_name = None, p_avatar_url = None, p_role = rl,
      p_created_at = ''2025-11-07 19:05:43+00'', p_updated_at = ''2025-11-07 19:05:43+00''\<rparr>"

definition signed_in :: "Profile \<Rightarrow> AuthContext" where
  "signed_in p = \<lparr>profile = Some p, user = Some \<lparr>u_id = p_id p, u_email = Some (p_email p)\<rparr>\<rparr>"

definition mk_request :: "uuid \<Rightarrow> uuid \<Rightarrow> uuid option \<Rightarrow> Request" where
  "mk_request i creator assignee =
     \<lparr>r_id = i, r_title = ''Printer broken'', r_description = None, r_status = ''new'',
      r_priority = ''normal'', r_due_date = None, r_created_by = creator,
      r_assigned_to = assignee, r_created_at = ''2025-11-07 20:22:26+00'',
      r_updated_at = ''2025-11-07 20:22:26+00''\<rparr>"

definition alice :: Profile where "alice = mk_profile ''a1'' ''alice@example.org'' Admin"
definition bob :: Profile where "bob = mk_profile ''b2'' ''bob@example.org'' Team_member"
definition carol :: Profile where "carol = mk_profile ''c3'' ''carol@example.org'' User"
definition dave :: Profile where "dave = mk_profile ''d4'' ''dave@example.org'' Guest"

text \<open>
  Four profiles, one of each role, and three requests: one created by the user and
  assigned to the team member, one created by the guest, one created by the admin;
  the policies are those of the last migration.
\<close>

definition sample_db :: Database where
  "sample_db =
     \<lparr>profiles = [alice, bob, carol, dave],
      requests = [mk_request ''r1'' ''c3'' (Some ''b2''), mk_request ''r2'' ''d4'' None,
                  mk_request ''r3'' ''a1'' None],
      request_attachments = [],
      request_comments = [],
      request_activity = [],
      policies = consolidated_policies\<rparr>"

section \<open>Profile creation on signup (handle\_new\_user)\<close>

text \<open>
  The metadata of a new \<open>auth.users\<close> row is a jsonb object supplied at signup. A member
  is null, a string, or another value (number, boolean, array, object) given by its text.
  \<open>obj->>key\<close> is null for a missing key and for a JSON null, the string itself for a
  string, and the text of any other value.
\<close>

datatype Json = JNull | JString string | JOther string

record AuthUsersRow =
  au_id :: uuid
  au_email :: "string option"
  au_raw_user_meta_data :: "(string \<times> Json) list"

definition json_get_text :: "(string \<times> Json) list \<Rightarrow> string \<Rightarrow> string option" where
  "json_get_text obj k =
     (case map_of obj k of
        None \<Rightarrow> None
      | Some JNull \<Rightarrow> None
      | Some (JString t) \<Rightarrow> Some t
      | Some (JOther t) \<Rightarrow> Some t)"

text \<open>
  \<open>text::user_role\<close>: null stays null, a label of the enum becomes its value, any other
  text raises.
\<close>

definition cast_user_role :: "string option \<Rightarrow> PgError + UserRole option" where
  "cast_user_role t =
     (case t of
        None \<Rightarrow> Inr None
      | Some l \<Rightarrow>
          if l = ''admin'' then Inr (Some Admin)
          else if l = ''team_member'' then Inr (Some Team_member)
          else if l = ''user'' then Inr (Some User)
          else if l = ''guest'' then Inr (Some Guest)
          else Inl (invalid_text_representation l))"

definition coalesce :: "'a option \<Rightarrow> 'a \<Rightarrow> 'a" where
  "coalesce x d = (case x of None \<Rightarrow> d | Some v \<Rightarrow> v)"

text \<open>
  \<open>INSERT INTO public.profiles (id, email, full_name, role)\<close> with the constraints of the
  table: \<open>email\<close> is \<open>NOT NULL\<close> and \<open>UNIQUE\<close>, \<open>id\<close> is the primary key; the timestamps
  default to \<open>now()\<close>. With \<open>ON CONFLICT (id) DO NOTHING\<close> a row with the same id makes the
  statement a no-op. The key to \<open>auth.users\<close> holds, the trigger firing after that row's
  insert.
\<close>

definition insert_into_profiles ::
  "bool \<Rightarrow> string \<Rightarrow> uuid \<Rightarrow> string option \<Rightarrow> string \<Rightarrow> UserRole \<Rightarrow> Database
    \<Rightarrow> PgError + Database" where
  "insert_into_profiles on_conflict_do_nothing now pid email full_name rl db =
     (case email of
        None \<Rightarrow> Inl (not_null_violation ''email'')
      | Some e \<Rightarrow>
          if list_ex (\<lambda>p. p_id p = pid) (profiles db)
            then (if on_conflict_do_nothing then Inr db
                  else Inl (unique_violation ''profiles_pkey''))
          else if list_ex (\<lambda>p. p_email p = e) (profiles db)
            then Inl (unique_violation ''profiles_email_key'')
          else Inr (db\<lparr>profiles := profiles db @
                 [\<lparr>p_id = pid, p_email = e, p_full_name = Some full_name,
                   p_avatar_url = None, p_role = rl, p_created_at = now,
                   p_updated_at = now\<rparr>]\<rparr>))"

text \<open>
  The body shared by all versions: evaluate the \<open>VALUES\<close> list (the cast may raise), then
  insert.
\<close>

definition insert_profile_for ::
  "bool \<Rightarrow> string \<Rightarrow> AuthUsersRow \<Rightarrow> Database \<Rightarrow> PgError + Database" where
  "insert_profile_for on_conflict_do_nothing now new db =
     (case cast_user_role (json_get_text (au_raw_user_meta_data new) ''role'') of
        Inl e \<Rightarrow> Inl e
      | Inr r \<Rightarrow>
          insert_into_profiles on_conflict_do_nothing now (au_id new) (au_email new)
            (coalesce (json_get_text (au_raw_user_meta_data new) ''full_name'') [])
            (coalesce r User) db)"

text \<open>
  The first version: an error leaves the trigger and aborts the insert of the user.
  The result is the returned row and the database.
\<close>

definition handle_new_user_v1 ::
  "string \<Rightarrow> AuthUsersRow \<Rightarrow> Database \<Rightarrow> PgError + (AuthUsersRow \<times> Database)" where
  "handle_new_user_v1 now new db =
     (case insert_profile_for False now new db of
        Inl e \<Rightarrow> Inl e
      | Inr db' \<Rightarrow> Inr (new, db'))"

text \<open>
  The later versions (both later migrations have this body): \<open>ON CONFLICT (id) DO NOTHING\<close>
  and an \<open>EXCEPTION WHEN others\<close> handler, which undoes the block, raises a warning with
  the error and returns the new row. The result carries the warnings raised.
\<close>

definition handle_new_user ::
  "string \<Rightarrow> AuthUsersRow \<Rightarrow> Database
    \<Rightarrow> PgError + (AuthUsersRow \<times> Database \<times> PgError list)" where
  "handle_new_user now new db =
     (case insert_profile_for True now new db of
        Inl e \<Rightarrow> Inr (new, db, [e])
      | Inr db' \<Rightarrow> Inr (new, db', []))"

definition signup_row :: "uuid \<Rightarrow> string \<Rightarrow> (string \<times> Json) list \<Rightarrow> AuthUsersRow" where
  "signup_row i e meta = \<lparr>au_id = i, au_email = Some e, au_raw_user_meta_data = meta\<rparr>"

section \<open>The enums of the database and the controls of the pages\<close>

text \<open>The labels of \<open>request_status\<close> and \<open>request_priority\<close>, and the cast from text.\<close>

definition request_status_enum :: "string list" where
  "request_status_enum = [''new'', ''in_progress'', ''under_review'', ''completed'', ''rejected'']"

definition request_priority_enum :: "string list" where
  "request_priority_enum = [''normal'', ''high'', ''urgent'']"

definition cast_enum :: "string list \<Rightarrow> string \<Rightarrow> PgError + string" where
  "cast_enum labels t = (if t \<in> set labels then Inr t else Inl (invalid_text_representation t))"

text \<open>The \<open>SelectItem\<close> values of the request page and of the new-request form.\<close>

definition status_select_items :: "string list" where
  "status_select_items = [''new'', ''in_progress'', ''under_review'', ''completed'', ''rejected'']"

definition priority_select_items :: "string list" where
  "priority_select_items = [''normal'', ''high'', ''urgent'']"

definition new_request_priority_select_items :: "string list" where
  "new_request_priority_select_items = [''normal'', ''high'', ''urgent'']"

section \<open>The request page (src/app/reque/request/[id]/page.tsx)\<close>

text \<open>
  The state of \<open>RequestDetailContent\<close> that the claims are about: the request shown and
  the loading flag. A rendered page is given by the controls on it: the Delete button
  calls \<open>handleDeleteRequest\<close>, the Add Comment card \<open>handleSubmitComment\<close>, the status
  select \<open>handleStatusChange\<close> and the priority select \<open>handlePriorityChange\<close>.
\<close>

record PageState =
  request :: "Request option"
  loading :: bool

datatype Control = DeleteButton | AddCommentCard | StatusSelect | PrioritySelect

datatype View = LoadingSkeleton | RenderNothing | RequestDetail "Control list"

text \<open>
  The render: a skeleton while loading, nothing without a request, else the page, on
  which the Delete button is under \<open>canDelete\<close>, the Add Comment card under \<open>canComment\<close>
  and the Update Status card, with its status and priority selects, under \<open>canEdit\<close>.
\<close>

definition RequestDetailContent :: "AuthContext \<Rightarrow> PageState \<Rightarrow> View" where
  "RequestDetailContent ctx st =
     (if loading st then LoadingSkeleton
      else case request st of
        None \<Rightarrow> RenderNothing
      | Some r \<Rightarrow>
          (let canEdit = canEditRequest (usePermissions ctx) (r_created_by r) (r_assigned_to r);
               canDelete = canDeleteRequest (usePermissions ctx) (r_created_by r);
               canComment = canCommentOnRequest (usePermissions ctx) (r_created_by r)
           in RequestDetail
                ((if canDelete then [DeleteButton] else [])
                 @ (if canComment then [AddCommentCard] else [])
                 @ (if canEdit then [StatusSelect, PrioritySelect] else []))))"

fun controls :: "View \<Rightarrow> Control list" where
  "controls (RequestDetail cs) = cs"
| "controls LoadingSkeleton = []"
| "controls RenderNothing = []"

text \<open>
  \<open>supabase.from('requests').select('*').eq('id', requestId).single()\<close> as the database
  answers it: the error of the rewriter, else the row with that id if the read policies
  pass it. The page reads the \<open>data\<close> of the answer, which is null when there is an error.
\<close>

definition select_request_by_id :: "Database \<Rightarrow> Session \<Rightarrow> uuid \<Rightarrow> PgError + Request option" where
  "select_request_by_id db s i =
     (case rewrite_rel (policies db) (db_role s) all_tables requests_table SELECT of
        Inl e \<Rightarrow> Inl e
      | Inr u \<Rightarrow>
          Inr (find (\<lambda>r. r_id r = i
                          \<and> rls_decision db s requests_table SELECT (RequestRow r) = Inr True)
                 (requests db)))"

definition data_of :: "PgError + 'a option \<Rightarrow> 'a option" where
  "data_of answer = (case answer of Inl e \<Rightarrow> None | Inr d \<Rightarrow> d)"

text \<open>
  \<open>fetchRequestDetails\<close> once the queries have answered, as far as the request is
  concerned: without a row the page redirects and keeps its state; \<open>finally\<close> clears the
  loading flag.
\<close>

definition fetchRequestDetails :: "Request option \<Rightarrow> PageState \<Rightarrow> PageState" where
  "fetchRequestDetails requestData st =
     (case requestData of
        None \<Rightarrow> st\<lparr>loading := False\<rparr>
      | Some r \<Rightarrow> st\<lparr>request := Some r, loading := False\<rparr>)"

text \<open>
  The statement the two update handlers send,
  \<open>supabase.from('requests').update({column: value}).eq('id', id)\<close>, and the client that
  answers it with an error or none. The client library and the service behind it are
  not part of the sources: the client is a parameter.
\<close>

datatype ApiStatement = Update_requests "(string \<times> string) list" uuid

type_synonym DataApi = "ApiStatement \<Rightarrow> PgError option"

text \<open>
  The two update handlers return at once without a request or a user. They send the
  update; when the answer carries an error the state is kept, else the field is set in
  the held request and \<open>fetchRequestDetails\<close> is started, which sets the loading flag.
\<close>

definition handleStatusChange ::
  "DataApi \<Rightarrow> AuthContext \<Rightarrow> string \<Rightarrow> PageState \<Rightarrow> PageState" where
  "handleStatusChange api ctx newStatus st =
     (case (request st, user ctx) of
        (Some r, Some u) \<Rightarrow>
          (case api (Update_requests [(''status'', newStatus)] (r_id r)) of
             Some error \<Rightarrow> st
           | None \<Rightarrow> st\<lparr>request := Some (r\<lparr>r_status := newStatus\<rparr>), loading := True\<rparr>)
      | _ \<Rightarrow> st)"

definition handlePriorityChange ::
  "DataApi \<Rightarrow> AuthContext \<Rightarrow> string \<Rightarrow> PageState \<Rightarrow> PageState" where
  "handlePriorityChange api ctx newPriority st =
     (case (request st, user ctx) of
        (Some r, Some u) \<Rightarrow>
          (case api (Update_requests [(''priority'', newPriority)] (r_id r)) of
             Some error \<Rightarrow> st
           | None \<Rightarrow> st\<lparr>request := Some (r\<lparr>r_priority := newPriority\<rparr>), loading := True\<rparr>)
      | _ \<Rightarrow> st)"

text \<open>
  What can happen on the page. A fetch completes: the client answers, out of a database,
  with a row or with null. Or one of the two selects calls its \<open>onValueChange\<close> with the
  value of its \<open>i\<close>-th item (a select emits the value of one of its items and nothing
  else), the client answering the update as given; this can only happen when the select
  is on the page as rendered.
\<close>

datatype PageEvent =
    Fetched Database "Request option"
  | StatusPicked nat DataApi
  | PriorityPicked nat DataApi

fun page_step :: "AuthContext \<Rightarrow> PageState \<Rightarrow> PageEvent \<Rightarrow> PageState" where
  "page_step ctx st (Fetched db requestData) = fetchRequestDetails requestData st"
| "page_step ctx st (StatusPicked i api) =
     (if StatusSelect \<in> set (controls (RequestDetailContent ctx st))
         \<and> i < length status_select_items
      then handleStatusChange api ctx (status_select_items ! i) st else st)"
| "page_step ctx st (PriorityPicked i api) =
     (if PrioritySelect \<in> set (controls (RequestDetailContent ctx st))
         \<and> i < length priority_select_items
      then handlePriorityChange api ctx (priority_select_items ! i) st else st)"

definition initial_page :: PageState where
  "initial_page = \<lparr>request = None, loading = True\<rparr>"

text \<open>The enum columns of a stored row hold labels of their types.\<close>

definition request_enums_ok :: "Request \<Rightarrow> bool" where
  "request_enums_ok r =
     (r_status r \<in> set request_status_enum \<and> r_priority r \<in> set request_priority_enum)"

text \<open>
  The answer of a fetch comes from a database whose rows are typed: it is null or one
  of the stored rows, whichever the policies let through.
\<close>

fun event_from_typed_database :: "PageEvent \<Rightarrow> bool" where
  "event_from_typed_database (Fetched db requestData) =
     (list_all request_enums_ok (requests db)
      \<and> (case requestData of None \<Rightarrow> True | Some r \<Rightarrow> r \<in> set (requests db)))"
| "event_from_typed_database _ = True"

section \<open>The new-request form (src/app/reque/my-requests/page.tsx, NewRequestContent)\<close>

record NewRequestForm =
  title :: string
  description :: string
  priority :: string
  dueDate :: "string option"

definition initial_form :: NewRequestForm where
  "initial_form = \<lparr>title = [], description = [], priority = ''normal'', dueDate = None\<rparr>"

datatype FormEvent =
    SetTitle string
  | SetDescription string
  | PriorityItemPicked nat
  | SetDueDate "string option"

fun form_step :: "NewRequestForm \<Rightarrow> FormEvent \<Rightarrow> NewRequestForm" where
  "form_step f (SetTitle t) = f\<lparr>title := t\<rparr>"
| "form_step f (SetDescription d) = f\<lparr>description := d\<rparr>"
| "form_step f (PriorityItemPicked i) =
     (if i < length new_request_priority_select_items
      then f\<lparr>priority := new_request_priority_select_items ! i\<rparr> else f)"
| "form_step f (SetDueDate d) = f\<lparr>dueDate := d\<rparr>"

record RequestInsert =
  ins_title :: string
  ins_description :: "string option"
  ins_priority :: string
  ins_status :: string
  ins_due_date :: "string option"
  ins_created_by :: uuid

datatype SubmitResult = ToastError string | InsertIntoRequests RequestInsert

text \<open>
  \<open>handleSubmit\<close>, up to the insert it sends. \<open>String.prototype.trim\<close> is the platform's
  and is a parameter; the due date is held as the text \<open>toISOString\<close> gives.
\<close>

definition handleSubmit ::
  "(string \<Rightarrow> string) \<Rightarrow> AuthContext \<Rightarrow> NewRequestForm \<Rightarrow> SubmitResult" where
  "handleSubmit trim ctx f =
     (case user ctx of
        None \<Rightarrow> ToastError ''You must be logged in to create a request''
      | Some u \<Rightarrow>
          if trim (title f) = [] then ToastError ''Please enter a title''
          else InsertIntoRequests
                 \<lparr>ins_title = trim (title f),
                  ins_description =
                    (if trim (description f) = [] then None else Some (trim (description f))),
                  ins_priority = priority f,
                  ins_status = ''new'',
                  ins_due_date = dueDate f,
                  ins_created_by = u_id u\<rparr>)"

section \<open>Predicates of the statements\<close>

text \<open>
  The second database is the first with rows appended to \<open>request_activity\<close>, each with an
  activity type of the given list, and nothing else changed.
\<close>

definition appended_with_types :: "Database \<Rightarrow> Database \<Rightarrow> string list \<Rightarrow> bool" where
  "appended_with_types db db' tys =
     (\<exists>rows. db' = db\<lparr>request_activity := request_activity db @ rows\<rparr>
             \<and> (\<forall>a \<in> set rows. a_activity_type a \<in> set tys))"

text \<open>
  \<open>setRequests(data || [])\<close> in \<open>useRequests\<close>: the list held is the rows the query
  returned, or the empty list when it returned none.
\<close>

definition setRequests :: "Request list option \<Rightarrow> Request list" where
  "setRequests data = (case data of None \<Rightarrow> [] | Some rows \<Rightarrow> rows)"

text \<open>The request a page state holds, if any, is within both enums.\<close>

definition page_enums_ok :: "PageState \<Rightarrow> bool" where
  "page_enums_ok st = (case request st of None \<Rightarrow> True | Some r \<Rightarrow> request_enums_ok r)"

section \<open>Properties of the hook\<close>

lemma role_usePermissions: "role (usePermissions ctx) = map_option p_role (profile ctx)"
  by (simp add: usePermissions_def Let_def)

lemma canEditRequest_unfold:
  "canEditRequest (usePermissions ctx) createdBy assignedTo =
    (case user ctx of None \<Rightarrow> False
     | Some u \<Rightarrow>
         map_option p_role (profile ctx) = Some Admin
         \<or> (map_option p_role (profile ctx) = Some Team_member \<and> assignedTo = Some (u_id u))
         \<or> createdBy = u_id u)"
  by (auto simp: usePermissions_def Let_def split: option.splits)

lemma canDeleteRequest_unfold:
  "canDeleteRequest (usePermissions ctx) createdBy =
    (case user ctx of None \<Rightarrow> False
     | Some u \<Rightarrow> map_option p_role (profile ctx) = Some Admin \<or> createdBy = u_id u)"
  by (auto simp: usePermissions_def Let_def split: option.splits)

lemma canCommentOnRequest_unfold:
  "canCommentOnRequest (usePermissions ctx) createdBy =
    (case user ctx of None \<Rightarrow> False
     | Some u \<Rightarrow>
         map_option p_role (profile ctx) \<noteq> Some Guest
         \<and> (map_option p_role (profile ctx) = Some Admin
            \<or> map_option p_role (profile ctx) = Some Team_member
            \<or> createdBy = u_id u))"
  by (auto simp: usePermissions_def Let_def split: option.splits)

lemma canViewRequest_unfold:
  "canViewRequest (usePermissions ctx) createdBy =
    (case user ctx of None \<Rightarrow> False
     | Some u \<Rightarrow>
         map_option p_role (profile ctx) = Some Admin
         \<or> map_option p_role (profile ctx) = Some Team_member
         \<or> createdBy = u_id u)"
  by (auto simp: usePermissions_def Let_def split: option.splits)

text \<open>
  C9. Stronger capabilities imply view: whenever the hook lets the user edit, delete or
  comment on a request, it also lets the user view that request.
\<close>

theorem stronger_capabilities_imply_view:
  "(canEditRequest (usePermissions ctx) createdBy assignedTo
      \<longrightarrow> canViewRequest (usePermissions ctx) createdBy)
   \<and> (canDeleteRequest (usePermissions ctx) createdBy
      \<longrightarrow> canViewRequest (usePermissions ctx) createdBy)
   \<and> (canCommentOnRequest (usePermissions ctx) createdBy
      \<longrightarrow> canViewRequest (usePermissions ctx) createdBy)"
  by (auto simp: canEditRequest_unfold canDeleteRequest_unfold canCommentOnRequest_unfold
      canViewRequest_unfold split: option.splits)

theorem stronger_capabilities_imply_view_witness:
  "canEditRequest (usePermissions (signed_in alice)) ''c3'' (Some ''b2'')
   \<and> canDeleteRequest (usePermissions (signed_in alice)) ''c3''
   \<and> canCommentOnRequest (usePermissions (signed_in alice)) ''c3''
   \<and> canViewRequest (usePermissions (signed_in alice)) ''c3''"
  using stronger_capabilities_imply_view [of "signed_in alice" "''c3''" "Some ''b2''"]
  by (simp add: canEditRequest_unfold canDeleteRequest_unfold canCommentOnRequest_unfold
      signed_in_def alice_def mk_profile_def)

lemma canEditRequest_factor:
  "canEditRequest (usePermissions ctx) createdBy assignedTo =
    (case map_option u_id (user ctx) of None \<Rightarrow> False
     | Some i \<Rightarrow>
         map_option p_role (profile ctx) = Some Admin
         \<or> (map_option p_role (profile ctx) = Some Team_member \<and> assignedTo = Some i)
         \<or> createdBy = i)"
  by (cases "user ctx") (simp_all add: canEditRequest_unfold)

lemma canDeleteRequest_factor:
  "canDeleteRequest (usePermissions ctx) createdBy =
    (case map_option u_id (user ctx) of None \<Rightarrow> False
     | Some i \<Rightarrow> map_option p_role (profile ctx) = Some Admin \<or> createdBy = i)"
  by (cases "user ctx") (simp_all add: canDeleteRequest_unfold)

lemma canCommentOnRequest_factor:
  "canCommentOnRequest (usePermissions ctx) createdBy =
    (case map_option u_id (user ctx) of None \<Rightarrow> False
     | Some i \<Rightarrow>
         map_option p_role (profile ctx) \<noteq> Some Guest
         \<and> (map_option p_role (profile ctx) = Some Admin
            \<or> map_option p_role (profile ctx) = Some Team_member
            \<or> createdBy = i))"
  by (cases "user ctx") (simp_all add: canCommentOnRequest_unfold)

lemma canViewRequest_factor:
  "canViewRequest (usePermissions ctx) createdBy =
    (case map_option u_id (user ctx) of None \<Rightarrow> False
     | Some i \<Rightarrow>
         map_option p_role (profile ctx) = Some Admin
         \<or> map_option p_role (profile ctx) = Some Team_member
         \<or> createdBy = i)"
  by (cases "user ctx") (simp_all add: canViewRequest_unfold)

text \<open>
  C8, as the code has it. Without a user the four per-request capabilities are false for
  all arguments, whatever the profile. The role is read from the profile alone: in any
  context, with or without a user, it is null exactly when the profile is null.
\<close>

theorem no_user_no_request_capability:
  "(user ctx = None \<longrightarrow>
      \<not> canEditRequest (usePermissions ctx) createdBy assignedTo
      \<and> \<not> canDeleteRequest (usePermissions ctx) createdBy
      \<and> \<not> canCommentOnRequest (usePermissions ctx) createdBy
      \<and> \<not> canViewRequest (usePermissions ctx) createdBy)
   \<and> (role (usePermissions ctx') = None \<longleftrightarrow> profile ctx' = None)"
  by (simp add: canEditRequest_unfold canDeleteRequest_unfold canCommentOnRequest_unfold
      canViewRequest_unfold role_usePermissions)

theorem no_user_no_request_capability_witness:
  "user \<lparr>profile = Some alice, user = None\<rparr> = None
   \<and> \<not> canEditRequest (usePermissions \<lparr>profile = Some alice, user = None\<rparr>) ''c3'' (Some ''b2'')
   \<and> \<not> canDeleteRequest (usePermissions \<lparr>profile = Some alice, user = None\<rparr>) ''c3''
   \<and> \<not> canCommentOnRequest (usePermissions \<lparr>profile = Some alice, user = None\<rparr>) ''c3''
   \<and> \<not> canViewRequest (usePermissions \<lparr>profile = Some alice, user = None\<rparr>) ''c3''
   \<and> role (usePermissions
         \<lparr>profile = None, user = Some \<lparr>u_id = ''c3'', u_email = None\<rparr>\<rparr>) = None
   \<and> role (usePermissions (signed_in carol)) \<noteq> None
   \<and> role (usePermissions \<lparr>profile = Some alice, user = None\<rparr>) \<noteq> None"
  using no_user_no_request_capability
    [of "\<lparr>profile = Some alice, user = None\<rparr>" "''c3''" "Some ''b2''"
        "\<lparr>profile = None, user = Some \<lparr>u_id = ''c3'', u_email = None\<rparr>\<rparr>"]
    no_user_no_request_capability
    [of "\<lparr>profile = Some alice, user = None\<rparr>" "''c3''" "Some ''b2''" "signed_in carol"]
    no_user_no_request_capability
    [of "\<lparr>profile = Some alice, user = None\<rparr>" "''c3''" "Some ''b2''"
        "\<lparr>profile = Some alice, user = None\<rparr>"]
  by (simp add: signed_in_def)

text \<open>
  C8 as stated fails: with no user but a profile still held, the role is not null.
\<close>

theorem no_user_role_null_counterexample:
  "user \<lparr>profile = Some alice, user = None\<rparr> = None
   \<and> role (usePermissions \<lparr>profile = Some alice, user = None\<rparr>) = Some Admin"
  by (simp add: role_usePermissions alice_def mk_profile_def)

text \<open>
  C3. The hook's result is a function of the role and the user id alone: two contexts
  with the same role and the same user id (or both without a user) give the same flags
  and the same per-request predicates, whatever else the profile and the user hold.
\<close>

theorem usePermissions_depends_on_role_and_user_id:
  assumes "map_option p_role (profile c1) = map_option p_role (profile c2)"
    and "map_option u_id (user c1) = map_option u_id (user c2)"
  shows "usePermissions c1 = usePermissions c2"
proof -
  have e: "canEditRequest (usePermissions c1) = canEditRequest (usePermissions c2)"
    unfolding fun_eq_iff canEditRequest_factor assms by simp
  have d: "canDeleteRequest (usePermissions c1) = canDeleteRequest (usePermissions c2)"
    unfolding fun_eq_iff canDeleteRequest_factor assms by simp
  have c: "canCommentOnRequest (usePermissions c1) = canCommentOnRequest (usePermissions c2)"
    unfolding fun_eq_iff canCommentOnRequest_factor assms by simp
  have v: "canViewRequest (usePermissions c1) = canViewRequest (usePermissions c2)"
    unfolding fun_eq_iff canViewRequest_factor assms by simp
  have f1: "role (usePermissions c1) = role (usePermissions c2)"
    using assms(1) by (simp add: usePermissions_def Let_def)
  have f2: "isAdmin (usePermissions c1) = isAdmin (usePermissions c2)"
    using assms(1) by (simp add: usePermissions_def Let_def)
  have f3: "isTeamMember (usePermissions c1) = isTeamMember (usePermissions c2)"
    using assms(1) by (simp add: usePermissions_def Let_def)
  have f4: "isUser (usePermissions c1) = isUser (usePermissions c2)"
    using assms(1) by (simp add: usePermissions_def Let_def)
  have f5: "isGuest (usePermissions c1) = isGuest (usePermissions c2)"
    using assms(1) by (simp add: usePermissions_def Let_def)
  have f6: "canCreateRequest (usePermissions c1) = canCreateRequest (usePermissions c2)"
    using assms(1) by (simp add: usePermissions_def Let_def)
  have f7: "canViewAllRequests (usePermissions c1) = canViewAllRequests (usePermissions c2)"
    using assms(1) by (simp add: usePermissions_def Let_def)
  have f8: "canEditAnyRequest (usePermissions c1) = canEditAnyRequest (usePermissions c2)"
    using assms(1) by (simp add: usePermissions_def Let_def)
  have f9: "canDeleteAnyRequest (usePermissions c1) = canDeleteAnyRequest (usePermissions c2)"
    using assms(1) by (simp add: usePermissions_def Let_def)
  have f10: "canManageUsers (usePermissions c1) = canManageUsers (usePermissions c2)"
    using assms(1) by (simp add: usePermissions_def Let_def)
  have m: "Permissions.more (usePermissions c1) = Permissions.more (usePermissions c2)"
    by simp
  show ?thesis
    by (rule Permissions.equality) (fact f1 f2 f3 f4 f5 f6 f7 f8 f9 f10 e d c v m)+
qed

theorem usePermissions_depends_on_role_and_user_id_witness:
  "signed_in alice
     \<noteq> \<lparr>profile = Some (alice\<lparr>p_email := ''root@example.org'', p_full_name := Some ''Alice''\<rparr>),
        user = Some \<lparr>u_id = ''a1'', u_email = None\<rparr>\<rparr>
   \<and> usePermissions (signed_in alice)
     = usePermissions
        \<lparr>profile = Some (alice\<lparr>p_email := ''root@example.org'', p_full_name := Some ''Alice''\<rparr>),
         user = Some \<lparr>u_id = ''a1'', u_email = None\<rparr>\<rparr>"
  using usePermissions_depends_on_role_and_user_id
    [of "signed_in alice"
        "\<lparr>profile = Some (alice\<lparr>p_email := ''root@example.org'',
                                   p_full_name := Some ''Alice''\<rparr>),
          user = Some \<lparr>u_id = ''a1'', u_email = None\<rparr>\<rparr>"]
  by (simp add: signed_in_def alice_def mk_profile_def)

section \<open>The request page\<close>

lemma controls_RequestDetailContent:
  assumes "request st = Some r" and "\<not> loading st"
  shows "controls (RequestDetailContent ctx st) =
     (if canDeleteRequest (usePermissions ctx) (r_created_by r) then [DeleteButton] else [])
     @ (if canCommentOnRequest (usePermissions ctx) (r_created_by r) then [AddCommentCard]
        else [])
     @ (if canEditRequest (usePermissions ctx) (r_created_by r) (r_assigned_to r)
        then [StatusSelect, PrioritySelect] else [])"
  using assms by (simp add: RequestDetailContent_def Let_def)






section \<open>The policies as the engine applies them\<close>

lemmas sample_defs =
  sample_db_def alice_def bob_def carol_def dave_def mk_profile_def mk_request_def
  signed_in_def session_of_def

text \<open>
  In each of the three catalogues the read policies on \<open>profiles\<close> select from \<open>profiles\<close>.
  Every statement of an authenticated caller on \<open>requests\<close>, \<open>request_attachments\<close> or
  \<open>request_comments\<close>, every one but \<open>INSERT\<close> on \<open>profiles\<close> and on \<open>request_activity\<close>,
  carries an expression that leads there, and the rewriter raises.
\<close>

lemma rewrite_rel_initial:
  "rewrite_rel initial_policies Authenticated all_tables requests_table c
     = Inl (invalid_object_definition ''profiles'')"
  "rewrite_rel initial_policies Authenticated all_tables request_attachments_table c
     = Inl (invalid_object_definition ''profiles'')"
  "rewrite_rel initial_policies Authenticated all_tables request_comments_table c
     = Inl (invalid_object_definition ''profiles'')"
  "c \<noteq> INSERT \<Longrightarrow>
   rewrite_rel initial_policies Authenticated all_tables request_activity_table c
     = Inl (invalid_object_definition ''profiles'')"
  "c \<noteq> INSERT \<Longrightarrow>
   rewrite_rel initial_policies Authenticated all_tables profiles_table c
     = Inl (invalid_object_definition ''profiles'')"
  by (cases c; hypsubst; code_simp)+

lemma rewrite_rel_signup_fix:
  "rewrite_rel signup_fix_policies Authenticated all_tables requests_table c
     = Inl (invalid_object_definition ''profiles'')"
  "rewrite_rel signup_fix_policies Authenticated all_tables request_attachments_table c
     = Inl (invalid_object_definition ''profiles'')"
  "rewrite_rel signup_fix_policies Authenticated all_tables request_comments_table c
     = Inl (invalid_object_definition ''profiles'')"
  "c \<noteq> INSERT \<Longrightarrow>
   rewrite_rel signup_fix_policies Authenticated all_tables request_activity_table c
     = Inl (invalid_object_definition ''profiles'')"
  "c \<noteq> INSERT \<Longrightarrow>
   rewrite_rel signup_fix_policies Authenticated all_tables profiles_table c
     = Inl (invalid_object_definition ''profiles'')"
  by (cases c; hypsubst; code_simp)+

lemma rewrite_rel_consolidated:
  "rewrite_rel consolidated_policies Authenticated all_tables requests_table c
     = Inl (invalid_object_definition ''profiles'')"
  "rewrite_rel consolidated_policies Authenticated all_tables request_attachments_table c
     = Inl (invalid_object_definition ''profiles'')"
  "rewrite_rel consolidated_policies Authenticated all_tables request_comments_table c
     = Inl (invalid_object_definition ''profiles'')"
  "c \<noteq> INSERT \<Longrightarrow>
   rewrite_rel consolidated_policies Authenticated all_tables request_activity_table c
     = Inl (invalid_object_definition ''profiles'')"
  "c \<noteq> INSERT \<Longrightarrow>
   rewrite_rel consolidated_policies Authenticated all_tables profiles_table c
     = Inl (invalid_object_definition ''profiles'')"
  by (cases c; hypsubst; code_simp)+

lemma shipped_catalogue_cases:
  assumes "cat \<in> set shipped_catalogues"
  obtains "cat = initial_policies" | "cat = signup_fix_policies"
  | "cat = consolidated_policies"
  using assms by (auto simp: shipped_catalogues_def)

lemma rewrite_rel_shipped:
  assumes "cat \<in> set shipped_catalogues"
  shows "rewrite_rel cat Authenticated all_tables requests_table c
           = Inl (invalid_object_definition ''profiles'')"
    and "rewrite_rel cat Authenticated all_tables request_attachments_table c
           = Inl (invalid_object_definition ''profiles'')"
    and "rewrite_rel cat Authenticated all_tables request_comments_table c
           = Inl (invalid_object_definition ''profiles'')"
    and "c \<noteq> INSERT \<Longrightarrow>
         rewrite_rel cat Authenticated all_tables request_activity_table c
           = Inl (invalid_object_definition ''profiles'')"
    and "c \<noteq> INSERT \<Longrightarrow>
         rewrite_rel cat Authenticated all_tables profiles_table c
           = Inl (invalid_object_definition ''profiles'')"
proof -
  consider "cat = initial_policies" | "cat = signup_fix_policies"
    | "cat = consolidated_policies"
    using assms by (rule shipped_catalogue_cases)
  note c = this
  show "rewrite_rel cat Authenticated all_tables requests_table c
           = Inl (invalid_object_definition ''profiles'')"
    using c by cases
      (simp_all add: rewrite_rel_initial rewrite_rel_signup_fix rewrite_rel_consolidated)
  show "rewrite_rel cat Authenticated all_tables request_attachments_table c
           = Inl (invalid_object_definition ''profiles'')"
    using c by cases
      (simp_all add: rewrite_rel_initial rewrite_rel_signup_fix rewrite_rel_consolidated)
  show "rewrite_rel cat Authenticated all_tables request_comments_table c
           = Inl (invalid_object_definition ''profiles'')"
    using c by cases
      (simp_all add: rewrite_rel_initial rewrite_rel_signup_fix rewrite_rel_consolidated)
  show "rewrite_rel cat Authenticated all_tables request_activity_table c
           = Inl (invalid_object_definition ''profiles'')" if "c \<noteq> INSERT"
    using c that by cases
      (simp_all add: rewrite_rel_initial rewrite_rel_signup_fix rewrite_rel_consolidated)
  show "rewrite_rel cat Authenticated all_tables profiles_table c
           = Inl (invalid_object_definition ''profiles'')" if "c \<noteq> INSERT"
    using c that by cases
      (simp_all add: rewrite_rel_initial rewrite_rel_signup_fix rewrite_rel_consolidated)
qed

text \<open>
  Hence the database refuses these statements of any signed-in caller, on any row and
  whatever the tables hold, and the fetch of the request page gets no data.
\<close>

lemma rls_decision_refused:
  assumes "policies db \<in> set shipped_catalogues" and "db_role s = Authenticated"
  shows "rls_decision db s requests_table c row = Inl (invalid_object_definition ''profiles'')"
    and "rls_decision db s request_attachments_table c row
           = Inl (invalid_object_definition ''profiles'')"
    and "rls_decision db s request_comments_table c row
           = Inl (invalid_object_definition ''profiles'')"
    and "c \<noteq> INSERT \<Longrightarrow>
         rls_decision db s request_activity_table c row
           = Inl (invalid_object_definition ''profiles'')"
    and "c \<noteq> INSERT \<Longrightarrow>
         rls_decision db s profiles_table c row = Inl (invalid_object_definition ''profiles'')"
  using assms by (simp_all add: rls_decision_def rewrite_rel_shipped)

lemma select_request_by_id_refused:
  assumes "policies db \<in> set shipped_catalogues" and "db_role s = Authenticated"
  shows "select_request_by_id db s i = Inl (invalid_object_definition ''profiles'')"
    and "data_of (select_request_by_id db s i) = None"
  using assms by (simp_all add: select_request_by_id_def data_of_def rewrite_rel_shipped)

lemma select_request_by_id_stored:
  assumes "select_request_by_id db s i = Inr (Some r)"
  shows "r \<in> set (requests db)"
proof -
  have "find (\<lambda>r. r_id r = i
                \<and> rls_decision db s requests_table SELECT (RequestRow r) = Inr True)
          (requests db) = Some r"
    using assms by (auto simp: select_request_by_id_def split: sum.splits)
  then show ?thesis
    unfolding find_Some_iff by auto
qed

lemma sample_db_shipped: "policies sample_db \<in> set shipped_catalogues"
  by (simp add: sample_db_def shipped_catalogues_def)

lemma session_of_signed_in [simp]:
  "db_role (session_of (signed_in p)) = Authenticated"
  "auth_uid (session_of (signed_in p)) = Some (p_id p)"
  by (simp_all add: session_of_def signed_in_def)

text \<open>
  C1 at an input where the two sides part. An admin is signed in, the profile the hook
  holds being the admin's row, and the request is one the admin created. The hook answers
  yes to view, edit, delete, comment, create and view-all. The database refuses the
  read, the update, the delete and the insert of that request and the insert of the
  admin's comment on it, each with \<open>infinite recursion detected in policy for relation
  "profiles"\<close>. The two sides part as well when the hook holds a user and no profile: it
  answers yes to view, edit, delete and comment on the user's own request, which the
  database refuses to read.
\<close>

theorem hook_allows_database_refuses:
  "profile (signed_in alice) = find (\<lambda>p. p_id p = ''a1'') (profiles sample_db)
   \<and> mk_request ''r3'' ''a1'' None \<in> set (requests sample_db)
   \<and> canViewRequest (usePermissions (signed_in alice)) ''a1''
   \<and> canEditRequest (usePermissions (signed_in alice)) ''a1'' None
   \<and> canDeleteRequest (usePermissions (signed_in alice)) ''a1''
   \<and> canCommentOnRequest (usePermissions (signed_in alice)) ''a1''
   \<and> canCreateRequest (usePermissions (signed_in alice))
   \<and> canViewAllRequests (usePermissions (signed_in alice))
   \<and> rls_decision sample_db (session_of (signed_in alice)) requests_table SELECT
        (RequestRow (mk_request ''r3'' ''a1'' None))
      = Inl (invalid_object_definition ''profiles'')
   \<and> rls_decision sample_db (session_of (signed_in alice)) requests_table UPDATE
        (RequestRow (mk_request ''r3'' ''a1'' None))
      = Inl (invalid_object_definition ''profiles'')
   \<and> rls_decision sample_db (session_of (signed_in alice)) requests_table DELETE
        (RequestRow (mk_request ''r3'' ''a1'' None))
      = Inl (invalid_object_definition ''profiles'')
   \<and> rls_decision sample_db (session_of (signed_in alice)) requests_table INSERT
        (RequestRow (mk_request ''r4'' ''a1'' None))
      = Inl (invalid_object_definition ''profiles'')
   \<and> rls_decision sample_db (session_of (signed_in alice)) request_comments_table INSERT
        (CommentRow \<lparr>c_request_id = ''r3'', c_user_id = ''a1'', c_comment_text = ''On it''\<rparr>)
      = Inl (invalid_object_definition ''profiles'')
   \<and> canViewRequest
        (usePermissions \<lparr>profile = None, user = Some \<lparr>u_id = ''c3'', u_email = None\<rparr>\<rparr>) ''c3''
   \<and> canEditRequest
        (usePermissions \<lparr>profile = None, user = Some \<lparr>u_id = ''c3'', u_email = None\<rparr>\<rparr>) ''c3''
        (Some ''b2'')
   \<and> canDeleteRequest
        (usePermissions \<lparr>profile = None, user = Some \<lparr>u_id = ''c3'', u_email = None\<rparr>\<rparr>) ''c3''
   \<and> canCommentOnRequest
        (usePermissions \<lparr>profile = None, user = Some \<lparr>u_id = ''c3'', u_email = None\<rparr>\<rparr>) ''c3''
   \<and> rls_decision sample_db
        (session_of \<lparr>profile = None, user = Some \<lparr>u_id = ''c3'', u_email = None\<rparr>\<rparr>)
        requests_table SELECT (RequestRow (mk_request ''r1'' ''c3'' (Some ''b2'')))
      = Inl (invalid_object_definition ''profiles'')"
proof -
  have h: "canViewRequest (usePermissions (signed_in alice)) ''a1''
     \<and> canEditRequest (usePermissions (signed_in alice)) ''a1'' None
     \<and> canDeleteRequest (usePermissions (signed_in alice)) ''a1''
     \<and> canCommentOnRequest (usePermissions (signed_in alice)) ''a1''
     \<and> canCreateRequest (usePermissions (signed_in alice))
     \<and> canViewAllRequests (usePermissions (signed_in alice))"
    by (simp add: usePermissions_def Let_def signed_in_def alice_def mk_profile_def)
  have d: "profile (signed_in alice) = find (\<lambda>p. p_id p = ''a1'') (profiles sample_db)
     \<and> mk_request ''r3'' ''a1'' None \<in> set (requests sample_db)"
    by (simp add: sample_defs)
  have n: "canViewRequest
        (usePermissions \<lparr>profile = None, user = Some \<lparr>u_id = ''c3'', u_email = None\<rparr>\<rparr>) ''c3''
     \<and> canEditRequest
        (usePermissions \<lparr>profile = None, user = Some \<lparr>u_id = ''c3'', u_email = None\<rparr>\<rparr>) ''c3''
        (Some ''b2'')
     \<and> canDeleteRequest
        (usePermissions \<lparr>profile = None, user = Some \<lparr>u_id = ''c3'', u_email = None\<rparr>\<rparr>) ''c3''
     \<and> canCommentOnRequest
        (usePermissions \<lparr>profile = None, user = Some \<lparr>u_id = ''c3'', u_email = None\<rparr>\<rparr>) ''c3''"
    by (simp add: usePermissions_def Let_def)
  have s: "db_role (session_of \<lparr>profile = None, user = Some \<lparr>u_id = ''c3'', u_email = None\<rparr>\<rparr>)
             = Authenticated"
    by (simp add: session_of_def)
  note r = rls_decision_refused [OF sample_db_shipped session_of_signed_in(1)]
  note r' = rls_decision_refused(1) [OF sample_db_shipped s]
  show ?thesis
    using h d n by (simp add: r r')
qed

text \<open>
  C2, as the code has it, for the hook. For each of the roles admin, team member and
  user there are a signed-in user of that role and a stored request on which
  \<open>canCommentOnRequest\<close> is true. For a guest \<open>canCommentOnRequest\<close> is false on every
  request.
\<close>

theorem comment_capability_by_role:
  "(\<forall>rl \<in> {Admin, Team_member, User}.
      \<exists>ctx r. role (usePermissions ctx) = Some rl
        \<and> user ctx \<noteq> None
        \<and> r \<in> set (requests sample_db)
        \<and> canCommentOnRequest (usePermissions ctx) (r_created_by r))
   \<and> (role (usePermissions ctx) = Some Guest
        \<longrightarrow> \<not> canCommentOnRequest (usePermissions ctx) createdBy)"
proof (intro conjI ballI)
  fix rl assume "rl \<in> {Admin, Team_member, User}"
  then consider "rl = Admin" | "rl = Team_member" | "rl = User" by blast
  then show "\<exists>ctx r. role (usePermissions ctx) = Some rl
        \<and> user ctx \<noteq> None
        \<and> r \<in> set (requests sample_db)
        \<and> canCommentOnRequest (usePermissions ctx) (r_created_by r)"
  proof cases
    case 1
    show ?thesis
      apply (rule exI [of _ "signed_in alice"])
      apply (rule exI [of _ "mk_request ''r1'' ''c3'' (Some ''b2'')"])
      using 1 by (simp add: role_usePermissions canCommentOnRequest_unfold sample_defs)
  next
    case 2
    show ?thesis
      apply (rule exI [of _ "signed_in bob"])
      apply (rule exI [of _ "mk_request ''r1'' ''c3'' (Some ''b2'')"])
      using 2 by (simp add: role_usePermissions canCommentOnRequest_unfold sample_defs)
  next
    case 3
    show ?thesis
      apply (rule exI [of _ "signed_in carol"])
      apply (rule exI [of _ "mk_request ''r1'' ''c3'' (Some ''b2'')"])
      using 3 by (simp add: role_usePermissions canCommentOnRequest_unfold sample_defs)
  qed
next
  show "role (usePermissions ctx) = Some Guest
        \<longrightarrow> \<not> canCommentOnRequest (usePermissions ctx) createdBy"
    by (simp add: canCommentOnRequest_unfold role_usePermissions split: option.splits)
qed

theorem comment_capability_by_role_witness:
  "role (usePermissions (signed_in dave)) = Some Guest
   \<and> \<not> canCommentOnRequest (usePermissions (signed_in dave)) ''d4''
   \<and> \<not> canCommentOnRequest (usePermissions (signed_in dave)) ''c3''"
  using comment_capability_by_role [of "signed_in dave" "''d4''"]
    comment_capability_by_role [of "signed_in dave" "''c3''"]
  by (simp add: role_usePermissions signed_in_def dave_def mk_profile_def)

text \<open>
  C2 as stated fails for the fourth role: no guest, signed in or not, and no request make
  \<open>canCommentOnRequest\<close> true.
\<close>

theorem guest_comment_counterexample:
  "\<not> (\<exists>ctx createdBy. role (usePermissions ctx) = Some Guest
         \<and> canCommentOnRequest (usePermissions ctx) createdBy)"
  by (auto simp: canCommentOnRequest_unfold role_usePermissions split: option.splits)

section \<open>The change-logging trigger\<close>

lemma insert_into_request_activity_ok:
  assumes "list_ex (\<lambda>p. p_id p = u) (profiles db)"
    and "list_ex (\<lambda>r. r_id r = rid) (requests db)"
  shows "insert_into_request_activity rid (Some u) ty old new db
           = Inr (db\<lparr>request_activity := request_activity db @
                [\<lparr>a_request_id = rid, a_user_id = u, a_activity_type = ty,
                  a_old_value = old, a_new_value = new\<rparr>]\<rparr>)"
  using assms by (simp add: insert_into_request_activity_def)

lemma log_request_status_change_without_actor:
  assumes "auth_uid s = None"
    and "r_status OLD \<noteq> r_status NEW \<or> r_priority OLD \<noteq> r_priority NEW
         \<or> r_assigned_to OLD \<noteq> r_assigned_to NEW \<or> r_due_date OLD \<noteq> r_due_date NEW"
  shows "log_request_status_change s OLD NEW db = Inl (not_null_violation ''user_id'')"
  using assms by (auto simp: log_request_status_change_def insert_into_request_activity_def)

text \<open>
  C6. When a request is updated by a user (who has a profile, the updated row being in
  the table), \<open>log_request_status_change\<close> succeeds and appends to \<open>request_activity\<close>
  exactly these rows, in this order: one \<open>status_changed\<close> row if the status differs, one
  \<open>priority_changed\<close> row if the priority differs, one \<open>assignment_changed\<close> row if the
  assignee differs, one \<open>due_date_changed\<close> row if the due date differs. Each carries the
  request's id, the acting user, the old value and the new value; a field that did not
  change gives no row, and nothing else in the database changes.
\<close>

theorem log_request_status_change_rows:
  assumes "auth_uid s = Some u"
    and "list_ex (\<lambda>p. p_id p = u) (profiles db)"
    and "list_ex (\<lambda>r. r_id r = r_id NEW) (requests db)"
  shows "log_request_status_change s OLD NEW db =
    Inr (db\<lparr>request_activity := request_activity db
      @ (if r_status OLD \<noteq> r_status NEW
         then [\<lparr>a_request_id = r_id NEW, a_user_id = u, a_activity_type = ''status_changed'',
                a_old_value = Some (r_status OLD), a_new_value = Some (r_status NEW)\<rparr>]
         else [])
      @ (if r_priority OLD \<noteq> r_priority NEW
         then [\<lparr>a_request_id = r_id NEW, a_user_id = u, a_activity_type = ''priority_changed'',
                a_old_value = Some (r_priority OLD), a_new_value = Some (r_priority NEW)\<rparr>]
         else [])
      @ (if r_assigned_to OLD \<noteq> r_assigned_to NEW
         then [\<lparr>a_request_id = r_id NEW, a_user_id = u,
                a_activity_type = ''assignment_changed'',
                a_old_value = r_assigned_to OLD, a_new_value = r_assigned_to NEW\<rparr>]
         else [])
      @ (if r_due_date OLD \<noteq> r_due_date NEW
         then [\<lparr>a_request_id = r_id NEW, a_user_id = u, a_activity_type = ''due_date_changed'',
                a_old_value = r_due_date OLD, a_new_value = r_due_date NEW\<rparr>]
         else [])\<rparr>)"
proof -
  have ins: "insert_into_request_activity (r_id NEW) (Some u) ty old new db'
             = Inr (db'\<lparr>request_activity := request_activity db' @
                  [\<lparr>a_request_id = r_id NEW, a_user_id = u, a_activity_type = ty,
                    a_old_value = old, a_new_value = new\<rparr>]\<rparr>)"
    if "profiles db' = profiles db" and "requests db' = requests db" for ty old new db'
    using insert_into_request_activity_ok [of u db' "r_id NEW"] assms(2,3) that by simp
  show ?thesis
    by (cases "r_status OLD = r_status NEW"; cases "r_priority OLD = r_priority NEW";
        cases "r_assigned_to OLD = r_assigned_to NEW"; cases "r_due_date OLD = r_due_date NEW")
      (simp_all add: log_request_status_change_def assms(1) ins)
qed

theorem log_request_status_change_rows_witness:
  "log_request_status_change (session_of (signed_in bob))
     (mk_request ''r1'' ''c3'' (Some ''b2''))
     ((mk_request ''r1'' ''c3'' (Some ''b2''))
        \<lparr>r_status := ''in_progress'', r_due_date := Some ''2025-12-01 00:00:00+00''\<rparr>)
     sample_db
   = Inr (sample_db\<lparr>request_activity :=
       [\<lparr>a_request_id = ''r1'', a_user_id = ''b2'', a_activity_type = ''status_changed'',
         a_old_value = Some ''new'', a_new_value = Some ''in_progress''\<rparr>,
        \<lparr>a_request_id = ''r1'', a_user_id = ''b2'', a_activity_type = ''due_date_changed'',
         a_old_value = None, a_new_value = Some ''2025-12-01 00:00:00+00''\<rparr>]\<rparr>)"
  using log_request_status_change_rows
    [of "session_of (signed_in bob)" "''b2''" sample_db
        "(mk_request ''r1'' ''c3'' (Some ''b2''))
           \<lparr>r_status := ''in_progress'', r_due_date := Some ''2025-12-01 00:00:00+00''\<rparr>"
        "mk_request ''r1'' ''c3'' (Some ''b2'')"]
  by (simp add: sample_defs)

section \<open>The activity trail\<close>

lemma application_only_reads_request_activity:
  "\<forall>(f, t, c) \<in> set application_statements. t = request_activity_table \<longrightarrow> c = SELECT"
  by (simp add: application_statements_def)

text \<open>
  In each catalogue \<open>request_activity\<close> has no policy for \<open>UPDATE\<close> or \<open>DELETE\<close>, and one for
  \<open>INSERT\<close>, whose check compares \<open>user_id\<close> with the caller and reads no table.
\<close>

lemma request_activity_policies_initial:
  "policies_for initial_policies r request_activity_table UPDATE = []"
  "policies_for initial_policies r request_activity_table DELETE = []"
  by (cases r; hypsubst; code_simp)+

lemma request_activity_insert_policy_initial:
  "check_exprs initial_policies Authenticated request_activity_table INSERT
     = [Eq_uid ''user_id'']"
  "rewrite_rel initial_policies Authenticated all_tables request_activity_table INSERT = Inr ()"
  by code_simp+

lemma request_activity_policies_signup_fix:
  "policies_for signup_fix_policies r request_activity_table UPDATE = []"
  "policies_for signup_fix_policies r request_activity_table DELETE = []"
  by (cases r; hypsubst; code_simp)+

lemma request_activity_insert_policy_signup_fix:
  "check_exprs signup_fix_policies Authenticated request_activity_table INSERT
     = [Eq_uid ''user_id'']"
  "rewrite_rel signup_fix_policies Authenticated all_tables request_activity_table INSERT
     = Inr ()"
  by code_simp+

lemma request_activity_policies_consolidated:
  "policies_for consolidated_policies r request_activity_table UPDATE = []"
  "policies_for consolidated_policies r request_activity_table DELETE = []"
  by (cases r; hypsubst; code_simp)+

lemma request_activity_insert_policy_consolidated:
  "check_exprs consolidated_policies Authenticated request_activity_table INSERT
     = [Eq_uid ''user_id'']"
  "rewrite_rel consolidated_policies Authenticated all_tables request_activity_table INSERT
     = Inr ()"
  by code_simp+

lemma request_activity_policies_shipped:
  assumes "cat \<in> set shipped_catalogues"
  shows "policies_for cat r request_activity_table UPDATE = []"
    and "policies_for cat r request_activity_table DELETE = []"
    and "check_exprs cat Authenticated request_activity_table INSERT = [Eq_uid ''user_id'']"
    and "rewrite_rel cat Authenticated all_tables request_activity_table INSERT = Inr ()"
proof -
  consider "cat = initial_policies" | "cat = signup_fix_policies"
    | "cat = consolidated_policies"
    using assms by (rule shipped_catalogue_cases)
  note c = this
  show "policies_for cat r request_activity_table UPDATE = []"
    using c by cases
      (simp_all add: request_activity_policies_initial request_activity_policies_signup_fix
        request_activity_policies_consolidated request_activity_insert_policy_initial
        request_activity_insert_policy_signup_fix
        request_activity_insert_policy_consolidated)
  show "policies_for cat r request_activity_table DELETE = []"
    using c by cases
      (simp_all add: request_activity_policies_initial request_activity_policies_signup_fix
        request_activity_policies_consolidated request_activity_insert_policy_initial
        request_activity_insert_policy_signup_fix
        request_activity_insert_policy_consolidated)
  show "check_exprs cat Authenticated request_activity_table INSERT = [Eq_uid ''user_id'']"
    using c by cases
      (simp_all add: request_activity_policies_initial request_activity_policies_signup_fix
        request_activity_policies_consolidated request_activity_insert_policy_initial
        request_activity_insert_policy_signup_fix
        request_activity_insert_policy_consolidated)
  show "rewrite_rel cat Authenticated all_tables request_activity_table INSERT = Inr ()"
    using c by cases
      (simp_all add: request_activity_policies_initial request_activity_policies_signup_fix
        request_activity_policies_consolidated request_activity_insert_policy_initial
        request_activity_insert_policy_signup_fix
        request_activity_insert_policy_consolidated)
qed

lemma request_activity_update_delete_denied:
  assumes "policies db \<in> set shipped_catalogues"
  shows "rls_decision db s request_activity_table UPDATE row \<noteq> Inr True"
    and "rls_decision db s request_activity_table DELETE row \<noteq> Inr True"
  using request_activity_policies_shipped(1,2) [OF assms, of "db_role s"]
  by (simp_all add: rls_decision_def using_exprs_def passes_def map_filter_simps
      split: sum.splits)

lemma request_activity_insert_decision:
  assumes "policies db \<in> set shipped_catalogues" and "db_role s = Authenticated"
  shows "rls_decision db s request_activity_table INSERT (ActivityRow a)
           = Inr (auth_uid s = Some (a_user_id a))"
  using request_activity_policies_shipped(3,4) [OF assms(1)] assms(2)
  by (auto simp: rls_decision_def passes_def sql_eq_def split: option.splits)

lemma api_insert_request_activity_admitted:
  assumes "policies db \<in> set shipped_catalogues"
    and "db_role s = Authenticated" and "auth_uid s = Some (a_user_id a)"
    and "list_ex (\<lambda>p. p_id p = a_user_id a) (profiles db)"
    and "list_ex (\<lambda>r. r_id r = a_request_id a) (requests db)"
  shows "api_insert_request_activity s a db
           = Inr (db\<lparr>request_activity := request_activity db @ [a]\<rparr>)"
  using assms
  by (simp add: api_insert_request_activity_def request_activity_insert_decision
      insert_into_request_activity_def)

lemma insert_into_request_activity_Inr:
  assumes "insert_into_request_activity rid uid ty old new db = Inr db'"
  shows "\<exists>u. db' = db\<lparr>request_activity := request_activity db @
                [\<lparr>a_request_id = rid, a_user_id = u, a_activity_type = ty,
                  a_old_value = old, a_new_value = new\<rparr>]\<rparr>"
  using assms
  by (auto simp: insert_into_request_activity_def split: option.splits if_splits)

lemma appended_with_types_refl: "appended_with_types db db tys"
  unfolding appended_with_types_def by (rule exI [of _ "[]"]) simp

lemma appended_with_types_step:
  assumes "appended_with_types db db1 tys"
    and "insert_into_request_activity rid uid ty old new db1 = Inr db2"
    and "ty \<in> set tys"
  shows "appended_with_types db db2 tys"
proof -
  obtain rows where r: "db1 = db\<lparr>request_activity := request_activity db @ rows\<rparr>"
    and t: "\<forall>a \<in> set rows. a_activity_type a \<in> set tys"
    using assms(1) unfolding appended_with_types_def by blast
  obtain u where u: "db2 = db1\<lparr>request_activity := request_activity db1 @
                [\<lparr>a_request_id = rid, a_user_id = u, a_activity_type = ty,
                  a_old_value = old, a_new_value = new\<rparr>]\<rparr>"
    using insert_into_request_activity_Inr [OF assms(2)] by blast
  show ?thesis
    unfolding appended_with_types_def
    by (rule exI [of _ "rows @ [\<lparr>a_request_id = rid, a_user_id = u, a_activity_type = ty,
                  a_old_value = old, a_new_value = new\<rparr>]"])
      (simp add: u r t assms(3))
qed

lemma triggers_write_their_types:
  "log_request_created NEW db = Inr db' \<Longrightarrow> appended_with_types db db' trigger_activity_types"
  "log_file_upload F db = Inr db' \<Longrightarrow> appended_with_types db db' trigger_activity_types"
  by (auto simp: log_request_created_def log_file_upload_def trigger_activity_types_def
      intro: appended_with_types_step [OF appended_with_types_refl])

lemma sum_bindE:
  assumes "(case x of Inl e \<Rightarrow> Inl e | Inr v \<Rightarrow> f v) = Inr y"
  obtains v where "x = Inr v" and "f v = Inr y"
  using assms by (cases x) auto

lemma appended_with_types_if_step:
  assumes "appended_with_types db db1 tys"
    and "(if c then insert_into_request_activity rid uid ty old new db1 else Inr db1) = Inr db2"
    and "ty \<in> set tys"
  shows "appended_with_types db db2 tys"
proof (cases c)
  case True
  then show ?thesis
    using assms appended_with_types_step [OF assms(1) _ assms(3)] by simp
next
  case False
  then show ?thesis
    using assms by simp
qed

lemma trigger_activity_types_mem:
  "''status_changed'' \<in> set trigger_activity_types"
  "''priority_changed'' \<in> set trigger_activity_types"
  "''assignment_changed'' \<in> set trigger_activity_types"
  "''due_date_changed'' \<in> set trigger_activity_types"
  by (simp_all add: trigger_activity_types_def)

lemma log_request_status_change_writes_its_types:
  assumes "log_request_status_change s OLD NEW db = Inr db'"
  shows "appended_with_types db db' trigger_activity_types"
  using assms unfolding log_request_status_change_def
proof (elim sum_bindE)
  fix db1 db2 db3
  assume 1: "(if r_status OLD \<noteq> r_status NEW
            then insert_into_request_activity (r_id NEW) (auth_uid s) ''status_changed''
                   (Some (r_status OLD)) (Some (r_status NEW)) db
            else Inr db) = Inr db1"
    and 2: "(if r_priority OLD \<noteq> r_priority NEW
            then insert_into_request_activity (r_id NEW) (auth_uid s) ''priority_changed''
                   (Some (r_priority OLD)) (Some (r_priority NEW)) db1
            else Inr db1) = Inr db2"
    and 3: "(if r_assigned_to OLD \<noteq> r_assigned_to NEW
            then insert_into_request_activity (r_id NEW) (auth_uid s) ''assignment_changed''
                   (r_assigned_to OLD) (r_assigned_to NEW) db2
            else Inr db2) = Inr db3"
    and 4: "(if r_due_date OLD \<noteq> r_due_date NEW
      then insert_into_request_activity (r_id NEW) (auth_uid s) ''due_date_changed''
             (r_due_date OLD) (r_due_date NEW) db3
      else Inr db3) = Inr db'"
  note a0 = appended_with_types_refl [of db trigger_activity_types]
  note a1 = appended_with_types_if_step [OF a0 1 trigger_activity_types_mem(1)]
  note a2 = appended_with_types_if_step [OF a1 2 trigger_activity_types_mem(2)]
  note a3 = appended_with_types_if_step [OF a2 3 trigger_activity_types_mem(3)]
  show ?thesis
    by (rule appended_with_types_if_step [OF a3 4 trigger_activity_types_mem(4)])
qed

text \<open>
  C5 at the input where the code departs from it. A signed-in guest sends an \<open>INSERT\<close>
  into \<open>request_activity\<close> with their own id as \<open>user_id\<close>, for a request they cannot
  even read, with an activity type that no trigger writes. The policy admits it and the
  row is in the table.
\<close>

theorem activity_row_inserted_without_trigger:
  "api_insert_request_activity (session_of (signed_in dave))
     \<lparr>a_request_id = ''r1'', a_user_id = ''d4'', a_activity_type = ''request_approved'',
      a_old_value = None, a_new_value = Some ''approved by management''\<rparr> sample_db
   = Inr (sample_db\<lparr>request_activity :=
       [\<lparr>a_request_id = ''r1'', a_user_id = ''d4'', a_activity_type = ''request_approved'',
         a_old_value = None, a_new_value = Some ''approved by management''\<rparr>]\<rparr>)
   \<and> ''request_approved'' \<notin> set trigger_activity_types
   \<and> rls_decision sample_db (session_of (signed_in dave)) requests_table SELECT
        (RequestRow (mk_request ''r1'' ''c3'' (Some ''b2'')))
      = Inl (invalid_object_definition ''profiles'')"
proof (intro conjI)
  have "api_insert_request_activity (session_of (signed_in dave))
     \<lparr>a_request_id = ''r1'', a_user_id = ''d4'', a_activity_type = ''request_approved'',
      a_old_value = None, a_new_value = Some ''approved by management''\<rparr> sample_db
    = Inr (sample_db\<lparr>request_activity := request_activity sample_db @
        [\<lparr>a_request_id = ''r1'', a_user_id = ''d4'', a_activity_type = ''request_approved'',
          a_old_value = None, a_new_value = Some ''approved by management''\<rparr>]\<rparr>)"
    by (rule api_insert_request_activity_admitted [OF sample_db_shipped])
      (simp_all add: sample_defs)
  then show "api_insert_request_activity (session_of (signed_in dave))
     \<lparr>a_request_id = ''r1'', a_user_id = ''d4'', a_activity_type = ''request_approved'',
      a_old_value = None, a_new_value = Some ''approved by management''\<rparr> sample_db
   = Inr (sample_db\<lparr>request_activity :=
       [\<lparr>a_request_id = ''r1'', a_user_id = ''d4'', a_activity_type = ''request_approved'',
         a_old_value = None, a_new_value = Some ''approved by management''\<rparr>]\<rparr>)"
    by (simp add: sample_db_def)
  show "''request_approved'' \<notin> set trigger_activity_types"
    by (simp add: trigger_activity_types_def)
  show "rls_decision sample_db (session_of (signed_in dave)) requests_table SELECT
        (RequestRow (mk_request ''r1'' ''c3'' (Some ''b2'')))
      = Inl (invalid_object_definition ''profiles'')"
    by (rule rls_decision_refused(1) [OF sample_db_shipped session_of_signed_in(1)])
qed

section \<open>Profile creation on signup\<close>

lemma cast_user_role_label: "cast_user_role (Some (user_role_label rl)) = Inr (Some rl)"
  by (cases rl) (simp_all add: cast_user_role_def)

lemma cast_user_role_invalid:
  assumes "t \<notin> user_role_label ` {Admin, Team_member, User, Guest}"
  shows "cast_user_role (Some t) = Inl (invalid_text_representation t)"
  using assms by (simp add: cast_user_role_def)

lemma handle_new_user_returns_new:
  "\<exists>db' w. handle_new_user now new db = Inr (new, db', w)"
  by (simp add: handle_new_user_def split: sum.splits)

lemma handle_new_user_conflict:
  assumes "list_ex (\<lambda>p. p_id p = au_id new) (profiles db)" and "au_email new = Some e"
    and "json_get_text (au_raw_user_meta_data new) ''role'' = None"
  shows "handle_new_user now new db = Inr (new, db, [])"
    and "handle_new_user_v1 now new db = Inl (unique_violation ''profiles_pkey'')"
  using assms
  by (simp_all add: handle_new_user_def handle_new_user_v1_def insert_profile_for_def
      insert_into_profiles_def cast_user_role_def)

text \<open>
  C10, as the code has it. When the profile can be inserted (the user has an e-mail, no
  profile has that id or that e-mail), \<open>handle_new_user\<close> creates it with the role named by
  the \<open>role\<close> member of the signup metadata when that is a label of \<open>user_role\<close>, admin
  included, and with the role user when the member is absent or null. When the member is
  a text that is no such label, the cast raises: the first version of the trigger aborts
  the creation of the user, the later version catches the error, creates no profile and
  returns the new row. In every case the later version returns the new row.
\<close>

theorem handle_new_user_role:
  "(json_get_text (au_raw_user_meta_data new1) ''role'' = Some (user_role_label rl)
      \<and> au_email new1 = Some e1
      \<and> \<not> list_ex (\<lambda>p. p_id p = au_id new1) (profiles db1)
      \<and> \<not> list_ex (\<lambda>p. p_email p = e1) (profiles db1)
    \<longrightarrow> handle_new_user now new1 db1
          = Inr (new1,
                 db1\<lparr>profiles := profiles db1 @
                   [\<lparr>p_id = au_id new1, p_email = e1,
                     p_full_name = Some (coalesce
                        (json_get_text (au_raw_user_meta_data new1) ''full_name'') []),
                     p_avatar_url = None, p_role = rl,
                     p_created_at = now, p_updated_at = now\<rparr>]\<rparr>,
                 []))
   \<and> (json_get_text (au_raw_user_meta_data new2) ''role'' = None
      \<and> au_email new2 = Some e2
      \<and> \<not> list_ex (\<lambda>p. p_id p = au_id new2) (profiles db2)
      \<and> \<not> list_ex (\<lambda>p. p_email p = e2) (profiles db2)
    \<longrightarrow> handle_new_user now new2 db2
          = Inr (new2,
                 db2\<lparr>profiles := profiles db2 @
                   [\<lparr>p_id = au_id new2, p_email = e2,
                     p_full_name = Some (coalesce
                        (json_get_text (au_raw_user_meta_data new2) ''full_name'') []),
                     p_avatar_url = None, p_role = User,
                     p_created_at = now, p_updated_at = now\<rparr>]\<rparr>,
                 []))
   \<and> (json_get_text (au_raw_user_meta_data new3) ''role'' = Some t
      \<and> t \<notin> user_role_label ` {Admin, Team_member, User, Guest}
    \<longrightarrow> handle_new_user now new3 db3 = Inr (new3, db3, [invalid_text_representation t])
        \<and> handle_new_user_v1 now new3 db3 = Inl (invalid_text_representation t))
   \<and> (\<exists>db' w. handle_new_user now new db = Inr (new, db', w))"
proof (intro conjI impI)
  assume a: "json_get_text (au_raw_user_meta_data new1) ''role'' = Some (user_role_label rl)
      \<and> au_email new1 = Some e1
      \<and> \<not> list_ex (\<lambda>p. p_id p = au_id new1) (profiles db1)
      \<and> \<not> list_ex (\<lambda>p. p_email p = e1) (profiles db1)"
  then show "handle_new_user now new1 db1
          = Inr (new1,
                 db1\<lparr>profiles := profiles db1 @
                   [\<lparr>p_id = au_id new1, p_email = e1,
                     p_full_name = Some (coalesce
                        (json_get_text (au_raw_user_meta_data new1) ''full_name'') []),
                     p_avatar_url = None, p_role = rl,
                     p_created_at = now, p_updated_at = now\<rparr>]\<rparr>,
                 [])"
    by (simp add: handle_new_user_def insert_profile_for_def insert_into_profiles_def
        cast_user_role_label coalesce_def)
next
  assume a: "json_get_text (au_raw_user_meta_data new2) ''role'' = None
      \<and> au_email new2 = Some e2
      \<and> \<not> list_ex (\<lambda>p. p_id p = au_id new2) (profiles db2)
      \<and> \<not> list_ex (\<lambda>p. p_email p = e2) (profiles db2)"
  then show "handle_new_user now new2 db2
          = Inr (new2,
                 db2\<lparr>profiles := profiles db2 @
                   [\<lparr>p_id = au_id new2, p_email = e2,
                     p_full_name = Some (coalesce
                        (json_get_text (au_raw_user_meta_data new2) ''full_name'') []),
                     p_avatar_url = None, p_role = User,
                     p_created_at = now, p_updated_at = now\<rparr>]\<rparr>,
                 [])"
    by (simp add: handle_new_user_def insert_profile_for_def insert_into_profiles_def
        cast_user_role_def coalesce_def)
next
  assume a: "json_get_text (au_raw_user_meta_data new3) ''role'' = Some t
      \<and> t \<notin> user_role_label ` {Admin, Team_member, User, Guest}"
  then have c: "cast_user_role (json_get_text (au_raw_user_meta_data new3) ''role'')
                  = Inl (invalid_text_representation t)"
    using cast_user_role_invalid [of t] by simp
  show "handle_new_user now new3 db3 = Inr (new3, db3, [invalid_text_representation t])"
    by (simp add: handle_new_user_def insert_profile_for_def c)
  show "handle_new_user_v1 now new3 db3 = Inl (invalid_text_representation t)"
    by (simp add: handle_new_user_v1_def insert_profile_for_def c)
next
  show "\<exists>db' w. handle_new_user now new db = Inr (new, db', w)"
    by (rule handle_new_user_returns_new)
qed

theorem handle_new_user_role_witness:
  "handle_new_user ''2025-11-08 09:00:00+00''
     (signup_row ''e5'' ''eve@example.org''
        [(''full_name'', JString ''Eve''), (''role'', JString ''admin'')]) sample_db
   = Inr (signup_row ''e5'' ''eve@example.org''
            [(''full_name'', JString ''Eve''), (''role'', JString ''admin'')],
          sample_db\<lparr>profiles := [alice, bob, carol, dave,
            \<lparr>p_id = ''e5'', p_email = ''eve@example.org'', p_full_name = Some ''Eve'',
             p_avatar_url = None, p_role = Admin,
             p_created_at = ''2025-11-08 09:00:00+00'',
             p_updated_at = ''2025-11-08 09:00:00+00''\<rparr>]\<rparr>,
          [])
   \<and> handle_new_user ''2025-11-08 09:00:00+00''
       (signup_row ''f6'' ''fay@example.org'' [(''role'', JNull)]) sample_db
     = Inr (signup_row ''f6'' ''fay@example.org'' [(''role'', JNull)],
          sample_db\<lparr>profiles := [alice, bob, carol, dave,
            \<lparr>p_id = ''f6'', p_email = ''fay@example.org'', p_full_name = Some [],
             p_avatar_url = None, p_role = User,
             p_created_at = ''2025-11-08 09:00:00+00'',
             p_updated_at = ''2025-11-08 09:00:00+00''\<rparr>]\<rparr>,
          [])
   \<and> handle_new_user ''2025-11-08 09:00:00+00''
       (signup_row ''g7'' ''gil@example.org'' [(''role'', JString ''Admin'')]) sample_db
     = Inr (signup_row ''g7'' ''gil@example.org'' [(''role'', JString ''Admin'')], sample_db,
            [invalid_text_representation ''Admin''])"
  using handle_new_user_role
    [of "signup_row ''e5'' ''eve@example.org''
           [(''full_name'', JString ''Eve''), (''role'', JString ''admin'')]"
        Admin "''eve@example.org''" sample_db "''2025-11-08 09:00:00+00''"
        "signup_row ''f6'' ''fay@example.org'' [(''role'', JNull)]"
        "''fay@example.org''" sample_db
        "signup_row ''g7'' ''gil@example.org'' [(''role'', JString ''Admin'')]"
        "''Admin''" sample_db]
  by (simp add: signup_row_def json_get_text_def coalesce_def sample_defs)

text \<open>
  C10 as stated fails when the \<open>role\<close> member is present and is not a label: no profile
  with the role user is created. The later version leaves the profiles as they were and
  only warns; the first version raises.
\<close>

theorem handle_new_user_invalid_role_counterexample:
  "handle_new_user ''2025-11-08 09:00:00+00''
     (signup_row ''h8'' ''hal@example.org'' [(''role'', JString ''superadmin'')]) sample_db
   = Inr (signup_row ''h8'' ''hal@example.org'' [(''role'', JString ''superadmin'')],
          sample_db, [invalid_text_representation ''superadmin''])
   \<and> handle_new_user_v1 ''2025-11-08 09:00:00+00''
       (signup_row ''h8'' ''hal@example.org'' [(''role'', JString ''superadmin'')]) sample_db
     = Inl (invalid_text_representation ''superadmin'')"
  by (simp add: handle_new_user_def handle_new_user_v1_def insert_profile_for_def
      cast_user_role_def json_get_text_def signup_row_def)

section \<open>Enum membership\<close>

lemma select_items_are_labels:
  "set status_select_items = set request_status_enum"
  "set priority_select_items = set request_priority_enum"
  "set new_request_priority_select_items = set request_priority_enum"
  by (simp_all add: status_select_items_def priority_select_items_def
      new_request_priority_select_items_def request_status_enum_def request_priority_enum_def)

lemma handleStatusChange_enums_ok:
  assumes "page_enums_ok st" and "v \<in> set request_status_enum"
  shows "page_enums_ok (handleStatusChange api ctx v st)"
  using assms
  by (auto simp: page_enums_ok_def handleStatusChange_def request_enums_ok_def
      split: option.splits)

lemma handlePriorityChange_enums_ok:
  assumes "page_enums_ok st" and "v \<in> set request_priority_enum"
  shows "page_enums_ok (handlePriorityChange api ctx v st)"
  using assms
  by (auto simp: page_enums_ok_def handlePriorityChange_def request_enums_ok_def
      split: option.splits)

lemma page_step_enums_ok:
  assumes "page_enums_ok st" and "event_from_typed_database e"
  shows "page_enums_ok (page_step ctx st e)"
proof (cases e)
  case (Fetched db requestData)
  then show ?thesis
    using assms
    by (cases requestData)
      (auto simp: page_enums_ok_def fetchRequestDetails_def list_all_iff)
next
  case (StatusPicked i api)
  have "status_select_items ! i \<in> set request_status_enum" if "i < length status_select_items"
    using that select_items_are_labels(1) nth_mem by blast
  then show ?thesis
    using assms(1) StatusPicked by (simp add: handleStatusChange_enums_ok)
next
  case (PriorityPicked i api)
  have "priority_select_items ! i \<in> set request_priority_enum"
    if "i < length priority_select_items"
    using that select_items_are_labels(2) nth_mem by blast
  then show ?thesis
    using assms(1) PriorityPicked by (simp add: handlePriorityChange_enums_ok)
qed

lemma page_run_enums_ok:
  assumes "page_enums_ok st" and "list_all event_from_typed_database es"
  shows "page_enums_ok (foldl (page_step ctx) st es)"
  using assms
  by (induction es arbitrary: st) (simp_all add: page_step_enums_ok)

lemma form_step_priority:
  assumes "priority f \<in> set request_priority_enum"
  shows "priority (form_step f e) \<in> set request_priority_enum"
proof (cases e)
  case (PriorityItemPicked i)
  have "new_request_priority_select_items ! i \<in> set request_priority_enum"
    if "i < length new_request_priority_select_items"
    using that select_items_are_labels(3) nth_mem by blast
  then show ?thesis
    using assms PriorityItemPicked by simp
qed (use assms in simp_all)

lemma form_run_priority:
  assumes "priority f \<in> set request_priority_enum"
  shows "priority (foldl form_step f es) \<in> set request_priority_enum"
  using assms
  by (induction es arbitrary: f) (simp_all add: form_step_priority)

text \<open>
  C7. The two enum types of the database accept exactly their labels, and the select
  items of the pages are those labels. Hence, with the stored rows typed by the database:
  the request held by the request page is, after any run of fetches and picks in the
  status and priority selects, within both enums; the list held by \<open>useRequests\<close> is; and
  whatever the new-request form has been through, the insert it sends has status \<open>new\<close>
  and a priority of the enum.
\<close>

theorem enum_membership_invariant:
  "((\<exists>v. cast_enum request_status_enum t = Inr v)
      \<longleftrightarrow> t \<in> {''new'', ''in_progress'', ''under_review'', ''completed'', ''rejected''})
   \<and> ((\<exists>v. cast_enum request_priority_enum t = Inr v)
      \<longleftrightarrow> t \<in> {''normal'', ''high'', ''urgent''})
   \<and> set status_select_items
        = {''new'', ''in_progress'', ''under_review'', ''completed'', ''rejected''}
   \<and> set priority_select_items = {''normal'', ''high'', ''urgent''}
   \<and> set new_request_priority_select_items = {''normal'', ''high'', ''urgent''}
   \<and> (list_all event_from_typed_database es
        \<and> request (foldl (page_step ctx) initial_page es) = Some r
      \<longrightarrow> r_status r \<in> {''new'', ''in_progress'', ''under_review'', ''completed'', ''rejected''}
          \<and> r_priority r \<in> {''normal'', ''high'', ''urgent''})
   \<and> (list_all request_enums_ok (requests db) \<and> set rows \<subseteq> set (requests db)
        \<and> r' \<in> set (setRequests (Some rows))
      \<longrightarrow> r_status r' \<in> {''new'', ''in_progress'', ''under_review'', ''completed'', ''rejected''}
          \<and> r_priority r' \<in> {''normal'', ''high'', ''urgent''})
   \<and> (handleSubmit trim ctx' (foldl form_step initial_form fes) = InsertIntoRequests ins
      \<longrightarrow> ins_status ins = ''new'' \<and> ins_priority ins \<in> {''normal'', ''high'', ''urgent''})"
proof (intro conjI impI)
  show "(\<exists>v. cast_enum request_status_enum t = Inr v)
      \<longleftrightarrow> t \<in> {''new'', ''in_progress'', ''under_review'', ''completed'', ''rejected''}"
    by (simp add: cast_enum_def request_status_enum_def)
  show "(\<exists>v. cast_enum request_priority_enum t = Inr v)
      \<longleftrightarrow> t \<in> {''normal'', ''high'', ''urgent''}"
    by (simp add: cast_enum_def request_priority_enum_def)
  show "set status_select_items
        = {''new'', ''in_progress'', ''under_review'', ''completed'', ''rejected''}"
    by (simp add: status_select_items_def)
  show "set priority_select_items = {''normal'', ''high'', ''urgent''}"
    by (simp add: priority_select_items_def)
  show "set new_request_priority_select_items = {''normal'', ''high'', ''urgent''}"
    by (simp add: new_request_priority_select_items_def)
next
  assume a: "list_all event_from_typed_database es
        \<and> request (foldl (page_step ctx) initial_page es) = Some r"
  have "page_enums_ok initial_page"
    by (simp add: page_enums_ok_def initial_page_def)
  then have "page_enums_ok (foldl (page_step ctx) initial_page es)"
    using a page_run_enums_ok by blast
  then have ok: "request_enums_ok r"
    using a by (simp add: page_enums_ok_def)
  show "r_status r \<in> {''new'', ''in_progress'', ''under_review'', ''completed'', ''rejected''}"
    using ok by (simp add: request_enums_ok_def request_status_enum_def)
  show "r_priority r \<in> {''normal'', ''high'', ''urgent''}"
    using ok by (simp add: request_enums_ok_def request_priority_enum_def)
next
  assume a: "list_all request_enums_ok (requests db) \<and> set rows \<subseteq> set (requests db)
        \<and> r' \<in> set (setRequests (Some rows))"
  then have ok: "request_enums_ok r'"
    by (auto simp: setRequests_def list_all_iff)
  show "r_status r' \<in> {''new'', ''in_progress'', ''under_review'', ''completed'', ''rejected''}"
    using ok by (simp add: request_enums_ok_def request_status_enum_def)
  show "r_priority r' \<in> {''normal'', ''high'', ''urgent''}"
    using ok by (simp add: request_enums_ok_def request_priority_enum_def)
next
  assume a: "handleSubmit trim ctx' (foldl form_step initial_form fes) = InsertIntoRequests ins"
  have p: "priority (foldl form_step initial_form fes) \<in> set request_priority_enum"
    by (rule form_run_priority) (simp add: initial_form_def request_priority_enum_def)
  show "ins_status ins = ''new''"
    using a by (auto simp: handleSubmit_def split: option.splits if_splits)
  have "ins_priority ins = priority (foldl form_step initial_form fes)"
    using a by (auto simp: handleSubmit_def split: option.splits if_splits)
  then show "ins_priority ins \<in> {''normal'', ''high'', ''urgent''}"
    using p by (simp add: request_priority_enum_def)
qed

theorem enum_membership_invariant_witness:
  "request (foldl (page_step (signed_in bob)) initial_page
      [Fetched sample_db (Some (mk_request ''r1'' ''c3'' (Some ''b2''))),
       StatusPicked 1 (\<lambda>q. None),
       Fetched (sample_db\<lparr>requests :=
                  [(mk_request ''r1'' ''c3'' (Some ''b2''))\<lparr>r_status := ''in_progress''\<rparr>]\<rparr>)
         (Some ((mk_request ''r1'' ''c3'' (Some ''b2''))\<lparr>r_status := ''in_progress''\<rparr>)),
       PriorityPicked 2 (\<lambda>q. None)])
     = Some ((mk_request ''r1'' ''c3'' (Some ''b2''))
              \<lparr>r_status := ''in_progress'', r_priority := ''urgent''\<rparr>)
   \<and> mk_request ''r3'' ''a1'' None \<in> set (setRequests (Some (requests sample_db)))
   \<and> handleSubmit (\<lambda>x. x) (signed_in carol)
        (foldl form_step initial_form [SetTitle ''New laptop'', PriorityItemPicked 1])
      = InsertIntoRequests
          \<lparr>ins_title = ''New laptop'', ins_description = None, ins_priority = ''high'',
           ins_status = ''new'', ins_due_date = None, ins_created_by = ''c3''\<rparr>
   \<and> ''in_progress'' \<in> {''new'', ''in_progress'', ''under_review'', ''completed'', ''rejected''}
   \<and> ''urgent'' \<in> {''normal'', ''high'', ''urgent''}"
  using enum_membership_invariant
    [of "''in_progress''"
        "[Fetched sample_db (Some (mk_request ''r1'' ''c3'' (Some ''b2''))),
          StatusPicked 1 (\<lambda>q. None),
          Fetched (sample_db\<lparr>requests :=
                     [(mk_request ''r1'' ''c3'' (Some ''b2''))\<lparr>r_status := ''in_progress''\<rparr>]\<rparr>)
            (Some ((mk_request ''r1'' ''c3'' (Some ''b2''))\<lparr>r_status := ''in_progress''\<rparr>)),
          PriorityPicked 2 (\<lambda>q. None)]"
        "signed_in bob"
        "(mk_request ''r1'' ''c3'' (Some ''b2''))
           \<lparr>r_status := ''in_progress'', r_priority := ''urgent''\<rparr>"
        sample_db "requests sample_db" "mk_request ''r3'' ''a1'' None"
        "\<lambda>x. x" "signed_in carol" "[SetTitle ''New laptop'', PriorityItemPicked 1]"
        "\<lparr>ins_title = ''New laptop'', ins_description = None, ins_priority = ''high'',
          ins_status = ''new'', ins_due_date = None, ins_created_by = ''c3''\<rparr>"]
  by (simp add: initial_page_def fetchRequestDetails_def controls_RequestDetailContent
      canEditRequest_unfold handleStatusChange_def handlePriorityChange_def
      status_select_items_def priority_select_items_def new_request_priority_select_items_def
      setRequests_def handleSubmit_def initial_form_def request_enums_ok_def
      request_status_enum_def request_priority_enum_def sample_defs)

end
